theory Spec2Isabelle
  imports Complex_Main "HOL-Library.Word" "HOL-Library.Sublist"
begin

section \<open>Python values\<close>

text \<open>
  A Python \<open>str\<close> is a sequence of Unicode code points and is modelled as a list of
  natural numbers; \<open>bytes\<close> is a list of 8-bit words. \<open>ascii\<close> turns an ASCII literal
  into a \<open>str\<close>. Text of the source outside ASCII is written by code point.
\<close>

type_synonym str = "nat list"
type_synonym byte = "8 word"
type_synonym bytes = "byte list"

definition ascii :: "string \<Rightarrow> str" where
  "ascii s = map of_char s"

text \<open>
  \<open>str.lower()\<close>. The letters A-Z are mapped to a-z. Code points outside ASCII are
  left as they are: the program only tests lower-cased text against the ASCII patterns
  \<open>pdf\<close>, \<open>.pdf\<close> and \<open>zh\<close>, and no code point outside ASCII lower-cases to one of
  these characters, so the tests come out as in Python.
\<close>

definition lower_cp :: "nat \<Rightarrow> nat" where
  "lower_cp c = (if 65 \<le> c \<and> c \<le> 90 then c + 32 else c)"

definition lower :: "str \<Rightarrow> str" where
  "lower s = map lower_cp s"

definition startswith :: "str \<Rightarrow> str \<Rightarrow> bool" where
  "startswith s p = (take (length p) s = p)"

definition endswith :: "str \<Rightarrow> str \<Rightarrow> bool" where
  "endswith s p = (length p \<le> length s \<and> drop (length s - length p) s = p)"

text \<open>\<open>sub in s\<close> on strings.\<close>

fun str_contains :: "str \<Rightarrow> str \<Rightarrow> bool" where
  "str_contains sub [] = (sub = [])"
| "str_contains sub (c # cs) = (startswith (c # cs) sub \<or> str_contains sub cs)"

text \<open>\<open>str.isspace\<close> on one code point, and \<open>str.strip()\<close> without arguments.\<close>

definition isspace_cp :: "nat \<Rightarrow> bool" where
  "isspace_cp c =
     ((9 \<le> c \<and> c \<le> 13) \<or> (28 \<le> c \<and> c \<le> 32) \<or> c = 0x85 \<or> c = 0xA0 \<or> c = 0x1680 \<or>
      (0x2000 \<le> c \<and> c \<le> 0x200A) \<or> c = 0x2028 \<or> c = 0x2029 \<or> c = 0x202F \<or>
      c = 0x205F \<or> c = 0x3000)"

definition lstrip :: "str \<Rightarrow> str" where
  "lstrip s = dropWhile isspace_cp s"

definition rstrip :: "str \<Rightarrow> str" where
  "rstrip s = rev (dropWhile isspace_cp (rev s))"

definition strip :: "str \<Rightarrow> str" where
  "strip s = rstrip (lstrip s)"

text \<open>\<open>sep.join(xs)\<close>.\<close>

fun join :: "str \<Rightarrow> str list \<Rightarrow> str" where
  "join sep [] = []"
| "join sep [x] = x"
| "join sep (x # y # zs) = x @ sep @ join sep (y # zs)"

text \<open>\<open>x or ""\<close> for an optional string, and the truth value of an optional string.\<close>

definition or_empty :: "str option \<Rightarrow> str" where
  "or_empty x = (case x of None \<Rightarrow> [] | Some s \<Rightarrow> s)"

definition truthy :: "str option \<Rightarrow> bool" where
  "truthy x = (case x of None \<Rightarrow> False | Some s \<Rightarrow> s \<noteq> [])"

section \<open>Exceptions\<close>

text \<open>
  Every raise of the program is a value. \<open>Raised name\<close> stands for an exception raised
  inside a library or the operating system (a connection error, a missing file, a PDF
  parse error, an API error), which the program never catches.
  \<open>RequestValidationError\<close> is FastAPI's rejection of a form before the handler runs.
\<close>

datatype exn =
    SystemExit str
  | HTTPException nat str
  | HTTPError nat
  | UnicodeDecodeError
  | IndexError
  | OpenAIError
  | RequestValidationError
  | Raised str

section \<open>Decoding UTF-8\<close>

text \<open>
  \<open>bytes.decode("utf-8", errors=...)\<close>, with the two error handlers the program uses.
  \<open>utf8_step b bs\<close> looks at the sequence that starts with the byte \<open>b\<close>: it gives the
  number of bytes of \<open>bs\<close> that belong to it, and the code point, or \<open>None\<close> when the
  sequence is ill-formed (then the count covers the ill-formed bytes after \<open>b\<close>).
\<close>

datatype errors = Strict | Ignore

definition is_cont :: "byte \<Rightarrow> bool" where
  "is_cont b = (0x80 \<le> b \<and> b \<le> 0xBF)"

definition cont_bits :: "byte \<Rightarrow> nat" where
  "cont_bits b = unat b mod 64"

definition second_ok :: "byte \<Rightarrow> byte \<Rightarrow> bool" where
  "second_ok b b1 =
     (if b = 0xE0 then 0xA0 \<le> b1 \<and> b1 \<le> 0xBF
      else if b = 0xED then 0x80 \<le> b1 \<and> b1 \<le> 0x9F
      else if b = 0xF0 then 0x90 \<le> b1 \<and> b1 \<le> 0xBF
      else if b = 0xF4 then 0x80 \<le> b1 \<and> b1 \<le> 0x8F
      else is_cont b1)"

fun utf8_step :: "byte \<Rightarrow> bytes \<Rightarrow> nat \<times> nat option" where
  "utf8_step b bs =
     (if b < 0x80 then (0, Some (unat b))
      else if b < 0xC2 \<or> 0xF4 < b then (0, None)
      else if b < 0xE0 then
        (case bs of
           b1 # _ \<Rightarrow> if is_cont b1 then (1, Some ((unat b mod 32) * 64 + cont_bits b1))
                     else (0, None)
         | [] \<Rightarrow> (0, None))
      else if b < 0xF0 then
        (case bs of
           b1 # b2 # _ \<Rightarrow>
             if \<not> second_ok b b1 then (0, None)
             else if \<not> is_cont b2 then (1, None)
             else (2, Some ((unat b mod 16) * 4096 + cont_bits b1 * 64 + cont_bits b2))
         | [b1] \<Rightarrow> if second_ok b b1 then (1, None) else (0, None)
         | [] \<Rightarrow> (0, None))
      else
        (case bs of
           b1 # b2 # b3 # _ \<Rightarrow>
             if \<not> second_ok b b1 then (0, None)
             else if \<not> is_cont b2 then (1, None)
             else if \<not> is_cont b3 then (2, None)
             else (3, Some ((unat b mod 8) * 262144 + cont_bits b1 * 4096
                            + cont_bits b2 * 64 + cont_bits b3))
         | [b1, b2] \<Rightarrow>
             if \<not> second_ok b b1 then (0, None)
             else if \<not> is_cont b2 then (1, None)
             else (2, None)
         | [b1] \<Rightarrow> if second_ok b b1 then (1, None) else (0, None)
         | [] \<Rightarrow> (0, None)))"

function decode_utf8 :: "errors \<Rightarrow> bytes \<Rightarrow> exn + str" where
  "decode_utf8 h [] = Inr []"
| "decode_utf8 h (b # bs) =
     (case utf8_step b bs of
        (n, Some c) \<Rightarrow>
          (case decode_utf8 h (drop n bs) of Inl e \<Rightarrow> Inl e | Inr s \<Rightarrow> Inr (c # s))
      | (n, None) \<Rightarrow>
          (case h of Strict \<Rightarrow> Inl UnicodeDecodeError | Ignore \<Rightarrow> decode_utf8 h (drop n bs)))"
  by pat_completeness auto
termination
  by (relation "measure (\<lambda>(h, bs). length bs)") auto

text \<open>
  Reading a text stream in universal-newlines mode (the default of \<open>open(path, "r")\<close>):
  \<open>\r\n\<close> and a lone \<open>\r\<close> arrive as \<open>\n\<close>.
\<close>

fun universal_newlines :: "str \<Rightarrow> str" where
  "universal_newlines [] = []"
| "universal_newlines [c] = [if c = 13 then 10 else c]"
| "universal_newlines (c # d # ds) =
     (if c = 13 \<and> d = 10 then 10 # universal_newlines ds
      else if c = 13 then 10 # universal_newlines (d # ds)
      else c # universal_newlines (d # ds))"

section \<open>The world outside the program\<close>

text \<open>
  The results of the libraries and of the operating system are parameters of the model,
  collected in the record \<open>env\<close>; each may raise:
  \<^item> \<open>stdin_read\<close> is what \<open>sys.stdin.read()\<close> returns;
  \<^item> \<open>urlparse\<close> is \<open>urllib.parse.urlparse\<close>;
  \<^item> \<open>requests_get url timeout\<close> is \<open>requests.get(url, timeout=timeout)\<close>;
  \<^item> \<open>open_file path\<close> gives the bytes of the file at \<open>path\<close>, or the error of opening it;
  \<^item> \<open>PdfReader\<close> parses bytes into the pages of a PDF (the library pypdf);
  \<^item> \<open>chat_completions_create\<close> is \<open>client.chat.completions.create\<close>;
  \<^item> \<open>write_file path text\<close> writes the output file of the command line;
  \<^item> \<open>empty_key_error\<close> is what the constructor \<open>OpenAI\<close> raises for an empty key, if
    the installed library raises for it.

  The sampling temperature, a float that the program only passes on, is a real number.
\<close>

record parse_result =
  scheme :: str
  netloc :: str
  path :: str

text \<open>
  A \<open>requests\<close> response. The headers are a case-insensitive dictionary, stored under
  the lower-cased header name. \<open>resp_content\<close> is \<open>resp.content\<close>, \<open>resp_text\<close> is
  \<open>resp.text\<close>, the body as \<open>requests\<close> decodes it.
\<close>

record response =
  status_code :: nat
  headers :: "str \<Rightarrow> str option"
  resp_content :: bytes
  resp_text :: str

text \<open>
  A page of a parsed PDF is given by what \<open>page.extract_text()\<close> does on it: it raises,
  or it returns a text or \<open>None\<close>.
\<close>

type_synonym page = "exn + str option"

record message =
  role :: str
  content :: str

record client =
  client_api_key :: str
  client_base_url :: "str option"

text \<open>\<open>response.choices[i].message.content\<close> of a chat completion.\<close>

record choice =
  message_content :: "str option"

record completion =
  choices :: "choice list"

record env =
  stdin_read :: "exn + str"
  urlparse :: "str \<Rightarrow> exn + parse_result"
  requests_get :: "str \<Rightarrow> nat \<Rightarrow> exn + response"
  open_file :: "str \<Rightarrow> exn + bytes"
  PdfReader :: "bytes \<Rightarrow> exn + page list"
  chat_completions_create :: "client \<Rightarrow> str \<Rightarrow> real \<Rightarrow> message list \<Rightarrow> exn + completion"
  write_file :: "str \<Rightarrow> str \<Rightarrow> exn + unit"
  empty_key_error :: "exn option"

text \<open>
  What the program does to the outside, in order. A computation with effects returns the
  list of its effects and its result, an exception or a value.
\<close>

datatype event =
    StdinRead
  | HttpGet str nat
  | OpenFile str
  | ChatCreate client str real "message list"
  | WriteFile str str
  | Print str

type_synonym 'a io = "event list \<times> (exn + 'a)"

definition io_bind :: "'a io \<Rightarrow> ('a \<Rightarrow> 'b io) \<Rightarrow> 'b io" where
  "io_bind m f =
     (case m of
        (t, Inl e) \<Rightarrow> (t, Inl e)
      | (t, Inr x) \<Rightarrow> (case f x of (t', r) \<Rightarrow> (t @ t', r)))"

section \<open>review\_agent.py: reading the paper\<close>

text \<open>
  An Isabelle name cannot start with an underscore: \<open>_read_text_file\<close>, \<open>_read_pdf\<close>
  and \<open>_read_from_url\<close> are \<open>read_text_file\<close>, \<open>read_pdf\<close> and \<open>read_from_url\<close> here,
  and \<open>_read_pdf_bytes\<close> is \<open>read_pdf_bytes_inner\<close>, beside the public
  \<open>read_pdf_bytes\<close> that calls it.
\<close>

text \<open>
  The list comprehension \<open>[page.extract_text() or "" for page in reader.pages]\<close>: the
  pages in order, the first exception ends it.
\<close>

fun page_texts :: "page list \<Rightarrow> exn + str list" where
  "page_texts [] = Inr []"
| "page_texts (p # ps) =
     (case p of
        Inl e \<Rightarrow> Inl e
      | Inr t \<Rightarrow> (case page_texts ps of Inl e \<Rightarrow> Inl e | Inr ts \<Rightarrow> Inr (or_empty t # ts)))"

text \<open>\<open>_read_text_file\<close>: \<open>open(path, "r", encoding="utf-8")\<close> and \<open>fp.read()\<close>.\<close>

definition read_text_file :: "env \<Rightarrow> str \<Rightarrow> str io" where
  "read_text_file env path' =
     ([OpenFile path'],
      case open_file env path' of
        Inl e \<Rightarrow> Inl e
      | Inr raw \<Rightarrow>
          (case decode_utf8 Strict raw of
             Inl e \<Rightarrow> Inl e
           | Inr s \<Rightarrow> Inr (universal_newlines s)))"

text \<open>\<open>_read_pdf\<close>: \<open>PdfReader(path)\<close> opens the file itself.\<close>

definition read_pdf :: "env \<Rightarrow> str \<Rightarrow> str io" where
  "read_pdf env path' =
     ([OpenFile path'],
      case open_file env path' of
        Inl e \<Rightarrow> Inl e
      | Inr raw \<Rightarrow>
          (case PdfReader env raw of
             Inl e \<Rightarrow> Inl e
           | Inr reader_pages \<Rightarrow>
               (case page_texts reader_pages of
                  Inl e \<Rightarrow> Inl e
                | Inr pages \<Rightarrow> Inr (join [10] pages))))"

text \<open>\<open>_read_pdf_bytes\<close>, and its public name \<open>read_pdf_bytes\<close>.\<close>

definition read_pdf_bytes_inner :: "env \<Rightarrow> bytes \<Rightarrow> exn + str" where
  "read_pdf_bytes_inner env data' =
     (case PdfReader env data' of
        Inl e \<Rightarrow> Inl e
      | Inr reader_pages \<Rightarrow>
          (case page_texts reader_pages of
             Inl e \<Rightarrow> Inl e
           | Inr pages \<Rightarrow> Inr (join [10] pages)))"

definition read_pdf_bytes :: "env \<Rightarrow> bytes \<Rightarrow> exn + str" where
  "read_pdf_bytes env data' = read_pdf_bytes_inner env data'"

text \<open>\<open>resp.raise_for_status()\<close>: \<open>requests\<close> raises for the status codes 400 to 599.\<close>

definition raise_for_status :: "response \<Rightarrow> exn + unit" where
  "raise_for_status resp =
     (if 400 \<le> status_code resp \<and> status_code resp < 600
      then Inl (HTTPError (status_code resp)) else Inr ())"

definition headers_get :: "(str \<Rightarrow> str option) \<Rightarrow> str \<Rightarrow> str \<Rightarrow> str" where
  "headers_get h key dflt = (case h (lower key) of None \<Rightarrow> dflt | Some v \<Rightarrow> v)"

text \<open>\<open>_read_from_url\<close>.\<close>

definition read_from_url :: "env \<Rightarrow> str \<Rightarrow> str io" where
  "read_from_url env url =
     ([HttpGet url 30],
      case requests_get env url 30 of
        Inl e \<Rightarrow> Inl e
      | Inr resp \<Rightarrow>
          (case raise_for_status resp of
             Inl e \<Rightarrow> Inl e
           | Inr _ \<Rightarrow>
               (let content_type = lower (headers_get (headers resp) (ascii ''content-type'') [])
                in if str_contains (ascii ''pdf'') content_type
                      \<or> endswith (lower url) (ascii ''.pdf'')
                   then read_pdf_bytes_inner env (resp_content resp)
                   else Inr (resp_text resp))))"

definition read_paper :: "env \<Rightarrow> str \<Rightarrow> str io" where
  "read_paper env source =
     (if source = ascii ''-'' then ([StdinRead], stdin_read env)
      else
        (case urlparse env source of
           Inl e \<Rightarrow> ([], Inl e)
         | Inr parsed \<Rightarrow>
             if scheme parsed = ascii ''http'' \<or> scheme parsed = ascii ''https''
             then read_from_url env source
             else if endswith (lower source) (ascii ''.pdf'') then read_pdf env source
             else read_text_file env source))"

section \<open>review\_agent.py: the prompt and the model call\<close>

text \<open>
  The two templates after \<open>template.format(domain=domain, paper=paper_text)\<close>: each has
  the two fields \<open>{domain}\<close> and \<open>{paper}\<close> and no other brace, and \<open>format\<close> puts a string
  argument in as it is.
\<close>

definition zh_template :: "str \<Rightarrow> str \<Rightarrow> str" where
  "zh_template domain paper =
     [0x8BF7, 0x7528, 0x4E2D, 0x6587, 0x7ED9, 0x51FA, 0x5BA1, 0x7A3F, 0x610F, 0x89C1, 0xFF0C,
      0x8BED, 0x6C14, 0x4E25, 0x683C, 0x4F46, 0x516C, 0x6B63, 0xFF0C, 0x9886, 0x57DF, 0x4E3A]
     @ domain @
     [0x3002, 10, 0x8F93, 0x51FA, 0x91C7, 0x7528, 0x4EE5, 0x4E0B, 0x7EAF, 0x6587, 0x672C,
      0x6A21, 0x677F, 0xFF08, 0x4E0D, 0x8981, 0x4F7F, 0x7528] @ ascii '' JSON''
     @ [0xFF0C, 0x4E5F, 0x4E0D, 0x8981, 0x7528, 0x4EE3, 0x7801, 0x5757, 0xFF09, 0xFF1A, 10]
     @ ascii ''Summary: ...'' @ [10]
     @ ascii ''Strengths:'' @ [10] @ ascii ''- ...'' @ [10]
     @ ascii ''Weaknesses:'' @ [10] @ ascii ''- ...'' @ [10]
     @ ascii ''Questions:'' @ [10] @ ascii ''- ...'' @ [10]
     @ ascii ''Decision ('' @ [0x9605, 0x8BFB, 0x5EFA, 0x8BAE] @ ascii '': ''
     @ [0x7CBE, 0x8BFB] @ ascii '' / '' @ [0x53EF, 0x9009, 0x6D4F, 0x89C8] @ ascii '' / ''
     @ [0x53EF, 0x5FFD, 0x7565] @ ascii ''): ...'' @ [10]
     @ [10, 0x8BBA, 0x6587, 0x5185, 0x5BB9, 0xFF1A, 10]
     @ paper"

definition en_template :: "str \<Rightarrow> str \<Rightarrow> str" where
  "en_template domain paper =
     ascii ''Provide the review in English, with a strict but fair tone, domain: ''
     @ domain @ ascii ''.'' @ [10]
     @ ascii ''Use this plain-text template (no JSON, no code fences):'' @ [10]
     @ ascii ''Summary: ...'' @ [10]
     @ ascii ''Strengths:'' @ [10] @ ascii ''- ...'' @ [10]
     @ ascii ''Weaknesses:'' @ [10] @ ascii ''- ...'' @ [10]
     @ ascii ''Questions:'' @ [10] @ ascii ''- ...'' @ [10]
     @ ascii ''Decision (Reading suggestion: Must Read / Skim Optional / Skip): ...'' @ [10]
     @ [10] @ ascii ''PAPER:'' @ [10]
     @ paper"

definition build_messages :: "str \<Rightarrow> str \<Rightarrow> str \<Rightarrow> str \<Rightarrow> message list" where
  "build_messages domain tone paper_text language =
     (let lang = lower language;
          template = (if startswith lang (ascii ''zh'') then zh_template else en_template);
          system_msg =
            ascii ''You are a seasoned reviewer in '' @ domain @ ascii ''. ''
            @ ascii ''Maintain a strict, skeptical, concise tone: '' @ tone @ ascii ''. ''
            @ ascii ''Respond using the requested language.'';
          user_msg = template domain paper_text
      in [\<lparr>role = ascii ''system'', content = system_msg\<rparr>,
          \<lparr>role = ascii ''user'', content = user_msg\<rparr>])"

text \<open>
  \<open>call_model\<close>. \<open>response.choices[0]\<close> raises IndexError on an empty list of choices.
\<close>

definition call_model :: "env \<Rightarrow> client \<Rightarrow> str \<Rightarrow> message list \<Rightarrow> real \<Rightarrow> str io" where
  "call_model env cl model messages temperature =
     ([ChatCreate cl model temperature messages],
      case chat_completions_create env cl model temperature messages of
        Inl e \<Rightarrow> Inl e
      | Inr resp \<Rightarrow>
          (case choices resp of
             [] \<Rightarrow> Inl IndexError
           | c # _ \<Rightarrow> Inr (or_empty (message_content c))))"

section \<open>The front ends\<close>

text \<open>
  \<open>OpenAI(api_key=..., base_url=...)\<close>. Without a key the constructor falls back to the
  variable \<open>OPENAI_API_KEY\<close> and raises when there is none; the command line already
  takes its default from that variable, and the endpoint only gets here with a key, so
  for this program the argument \<open>None\<close> raises. With a key that is not empty the
  constructor stores its arguments in the client. What it does with an empty key
  depends on the installed library (some versions raise) and is left to the world:
  \<open>empty_key_error\<close> is the exception it raises, if it raises.
\<close>

definition OpenAI :: "env \<Rightarrow> str option \<Rightarrow> str option \<Rightarrow> exn + client" where
  "OpenAI env key url =
     (case key of
        None \<Rightarrow> Inl OpenAIError
      | Some k \<Rightarrow>
          if k = []
          then (case empty_key_error env of
                  Some e \<Rightarrow> Inl e
                | None \<Rightarrow> Inr \<lparr>client_api_key = k, client_base_url = url\<rparr>)
          else Inr \<lparr>client_api_key = k, client_base_url = url\<rparr>)"

text \<open>
  The parameters both front ends take, the parsed command line (\<open>args\<close>) and the form of
  \<open>POST /review\<close> (\<open>form\<close>) with its optional upload. The field \<open>output\<close> of the command
  line is \<open>output_file\<close> and the field \<open>file\<close> of the form is \<open>upload_file\<close>, since
  \<open>output\<close> and \<open>file\<close> are keywords of Isabelle. The bytes of an upload, which
  \<open>await file.read()\<close> returns, are its field \<open>data\<close>.
\<close>

record params =
  domain :: str
  tone :: str
  language :: str
  model :: str
  base_url :: "str option"
  api_key :: "str option"
  temperature :: real

record args = params +
  paper :: str
  output_file :: "str option"

record upload =
  filename :: "str option"
  content_type :: "str option"
  data :: bytes

record form = params +
  paper_url :: "str option"
  upload_file :: "upload option"

text \<open>
  A form as it is sent to \<open>POST /review\<close>: its parts in order, each with its name and
  either a text value or a file.
\<close>

type_synonym raw_form = "(str \<times> (str + upload)) list"

record review_meta =
  meta_domain :: str
  meta_language :: str
  meta_model :: str
  meta_base_url :: "str option"
  paper_source :: str
  text_chars :: nat

record review_json =
  review_text :: str
  meta :: review_meta

text \<open>\<open>main\<close> of review\_agent.py, after \<open>parse_args\<close>.\<close>

definition main :: "env \<Rightarrow> args \<Rightarrow> unit io" where
  "main env a =
     io_bind (read_paper env (paper a)) (\<lambda>raw.
       let paper_text = strip raw in
       if paper_text = []
       then ([], Inl (SystemExit
               (ascii ''Paper text is empty; provide a text file or stdin input.'')))
       else
         (case OpenAI env (api_key a) (base_url a) of
            Inl e \<Rightarrow> ([], Inl e)
          | Inr cl \<Rightarrow>
              (let messages = build_messages (domain a) (tone a) paper_text (language a) in
               io_bind (call_model env cl (model a) messages (temperature a)) (\<lambda>review.
                 if truthy (output_file a)
                 then io_bind ([WriteFile (or_empty (output_file a)) review],
                               write_file env (or_empty (output_file a)) review)
                        (\<lambda>_. ([Print (ascii ''Saved review to '' @ or_empty (output_file a))],
                               Inr ()))
                 else ([Print review], Inr ())))))"

text \<open>\<open>review\<close> of server.py, the handler of \<open>POST /review\<close>.\<close>

definition review :: "env \<Rightarrow> form \<Rightarrow> review_json io" where
  "review env req =
     (if \<not> truthy (api_key req)
      then ([], Inl (HTTPException 400 ([0x7F3A, 0x5C11] @ ascii '' api_key'')))
      else if \<not> (upload_file req \<noteq> None \<or> truthy (paper_url req))
      then ([], Inl (HTTPException 400
             ([0x9700, 0x8981, 0x63D0, 0x4F9B, 0x6587, 0x4EF6, 0x6216, 0x8BBA, 0x6587]
              @ ascii '' URL'')))
      else
        io_bind
          (case upload_file req of
             Some f \<Rightarrow>
               if data f = []
               then ([], Inl (HTTPException 400
                      [0x4E0A, 0x4F20, 0x6587, 0x4EF6, 0x4E3A, 0x7A7A]))
               else
                 (let fname = or_empty (filename f);
                      ctype = lower (or_empty (content_type f))
                  in case (if endswith (lower fname) (ascii ''.pdf'')
                              \<or> str_contains (ascii ''pdf'') ctype
                           then read_pdf_bytes env (data f)
                           else decode_utf8 Ignore (data f)) of
                       Inl e \<Rightarrow> ([], Inl e)
                     | Inr t \<Rightarrow>
                         ([], Inr (t, if fname \<noteq> [] then fname else ascii ''uploaded-file'')))
           | None \<Rightarrow>
               if truthy (paper_url req)
               then io_bind (read_paper env (or_empty (paper_url req)))
                      (\<lambda>t. ([], Inr (t, or_empty (paper_url req))))
               else ([], Inr ([], [])))
          (\<lambda>(raw, src).
             let paper_text = strip raw in
             if paper_text = []
             then ([], Inl (HTTPException 400
                    ([0x8BBA, 0x6587, 0x5185, 0x5BB9, 0x4E3A, 0x7A7A, 0xFF0C, 0x68C0, 0x67E5,
                      0x6587, 0x4EF6, 0x6216] @ ascii '' URL ''
                     @ [0x662F, 0x5426, 0x6709, 0x6548])))
             else
               (case OpenAI env (api_key req) (base_url req) of
                  Inl e \<Rightarrow> ([], Inl e)
                | Inr cl \<Rightarrow>
                    (let messages =
                           build_messages (domain req) (tone req) paper_text (language req)
                     in io_bind (call_model env cl (model req) messages (temperature req))
                          (\<lambda>text.
                             ([], Inr \<lparr>review_text = text,
                                       meta = \<lparr>meta_domain = domain req,
                                                meta_language = language req,
                                                meta_model = model req,
                                                meta_base_url = base_url req,
                                                paper_source = src,
                                                text_chars = length paper_text\<rparr>\<rparr>))))))"

text \<open>
  \<open>POST /review\<close>. Before the handler runs, FastAPI validates the form against the
  parameters that \<open>review\<close> declares (server.py, lines 44 to 54) and answers a form it
  rejects itself. \<open>validate\<close> stands for this validation: it gives the typed form with
  its defaults, or nothing when a value has not the declared type.
\<close>

definition post_review ::
  "(raw_form \<Rightarrow> form option) \<Rightarrow> env \<Rightarrow> raw_form \<Rightarrow> review_json io" where
  "post_review validate env raw =
     (case validate raw of
        None \<Rightarrow> ([], Inl RequestValidationError)
      | Some req \<Rightarrow> review env req)"

text \<open>
  How the two front ends end. The interpreter turns \<open>SystemExit\<close> with a string
  argument into the exit status 1 with the string on standard error, and any other
  uncaught exception into the status 1 as well. FastAPI answers an \<open>HTTPException\<close>
  with its status code, a form it rejects with 422, and any other exception with 500.
\<close>

definition exit_status :: "exn + unit \<Rightarrow> nat" where
  "exit_status r = (case r of Inr _ \<Rightarrow> 0 | Inl _ \<Rightarrow> 1)"

definition http_status :: "exn + review_json \<Rightarrow> nat" where
  "http_status r =
     (case r of
        Inr _ \<Rightarrow> 200
      | Inl (HTTPException code _) \<Rightarrow> code
      | Inl RequestValidationError \<Rightarrow> 422
      | Inl _ \<Rightarrow> 500)"

text \<open>The message lists sent to the model in a run, and the reads of a paper in it.\<close>

fun model_inputs :: "event list \<Rightarrow> message list list" where
  "model_inputs [] = []"
| "model_inputs (ChatCreate cl m tmp msgs # es) = msgs # model_inputs es"
| "model_inputs (_ # es) = model_inputs es"

fun paper_reads :: "event list \<Rightarrow> event list" where
  "paper_reads [] = []"
| "paper_reads (StdinRead # es) = StdinRead # paper_reads es"
| "paper_reads (HttpGet u n # es) = HttpGet u n # paper_reads es"
| "paper_reads (OpenFile p # es) = OpenFile p # paper_reads es"
| "paper_reads (_ # es) = paper_reads es"

section \<open>Notions of the specification\<close>

text \<open>
  "The language, compared case-insensitively, starts with zh": the first character is
  \<open>z\<close> or \<open>Z\<close> and the second is \<open>h\<close> or \<open>H\<close>.
\<close>

definition zh_prefix_ci :: "str \<Rightarrow> bool" where
  "zh_prefix_ci l =
     (case l of
        a # b # _ \<Rightarrow> (a = of_char CHR ''z'' \<or> a = of_char CHR ''Z'')
                     \<and> (b = of_char CHR ''h'' \<or> b = of_char CHR ''H'')
      | _ \<Rightarrow> False)"

text \<open>
  The specification's reading of a fetched URL: a status outside 200..299 is a failure;
  otherwise the body goes to the PDF extractor exactly when the content type contains
  \<open>pdf\<close> or the path of the URL ends in \<open>.pdf\<close>, in any letter case, and is taken as text
  if not. \<open>spec_url_result env url res\<close> says that \<open>res\<close> is a result the specification
  allows for \<open>url\<close>.
\<close>

definition spec_pdf_signal :: "str \<Rightarrow> str \<Rightarrow> bool" where
  "spec_pdf_signal ctype url_path =
     (str_contains (ascii ''pdf'') (lower ctype) \<or> endswith (lower url_path) (ascii ''.pdf''))"

definition spec_url_result :: "env \<Rightarrow> str \<Rightarrow> exn + str \<Rightarrow> bool" where
  "spec_url_result env url res =
     (case (requests_get env url 30, urlparse env url) of
        (Inr resp, Inr parsed) \<Rightarrow>
          if 200 \<le> status_code resp \<and> status_code resp < 300
          then res = (if spec_pdf_signal (headers_get (headers resp) (ascii ''content-type'') [])
                           (path parsed)
                      then read_pdf_bytes env (resp_content resp)
                      else Inr (resp_text resp))
          else isl res
      | _ \<Rightarrow> True)"

text \<open>
  The specification's reading of a local text file: the result is the content of the
  file, that is its bytes decoded as UTF-8, as it is.
\<close>

definition spec_text_file_result :: "env \<Rightarrow> str \<Rightarrow> exn + str \<Rightarrow> bool" where
  "spec_text_file_result env path' res =
     (case open_file env path' of
        Inr raw \<Rightarrow> (case decode_utf8 Strict raw of Inr s \<Rightarrow> res = Inr s | Inl _ \<Rightarrow> True)
      | Inl _ \<Rightarrow> True)"

text \<open>
  The specification's reading of the PDF extractor: it fails only when the bytes cannot
  be parsed as a PDF at all. \<open>spec_pdf_result env raw res\<close> says that \<open>res\<close> is a result
  the specification allows for the bytes \<open>raw\<close>: no failure when they parse into pages.
\<close>

definition spec_pdf_result :: "env \<Rightarrow> bytes \<Rightarrow> exn + str \<Rightarrow> bool" where
  "spec_pdf_result env raw res =
     (case PdfReader env raw of Inr pages \<Rightarrow> \<not> isl res | Inl _ \<Rightarrow> True)"

text \<open>
  The specification's reading of the model caller: for every response of the API the
  result is a string. \<open>spec_call_result env cl m msgs tmp res\<close> says that \<open>res\<close> is a
  result the specification allows for this call.
\<close>

definition spec_call_result ::
  "env \<Rightarrow> client \<Rightarrow> str \<Rightarrow> message list \<Rightarrow> real \<Rightarrow> exn + str \<Rightarrow> bool" where
  "spec_call_result env cl m msgs tmp res =
     (case chat_completions_create env cl m tmp msgs of
        Inr resp \<Rightarrow> \<not> isl res
      | Inl _ \<Rightarrow> True)"

text \<open>
  Well-formed UTF-8, as the Unicode standard tabulates it (Table 3-7, well-formed UTF-8
  byte sequences): one byte 00..7F; C2..DF and a trail byte 80..BF; E0..EF and two
  bytes, the first in A0..BF after E0, in 80..9F after ED and in 80..BF otherwise;
  F0..F4 and three bytes, the first in 90..BF after F0, in 80..8F after F4 and in
  80..BF otherwise; every further byte in 80..BF.
\<close>

definition in_range :: "byte \<Rightarrow> byte \<Rightarrow> byte \<Rightarrow> bool" where
  "in_range b lo hi = (lo \<le> b \<and> b \<le> hi)"

fun well_formed_utf8 :: "bytes \<Rightarrow> bool" where
  "well_formed_utf8 [] = True"
| "well_formed_utf8 (b # bs) =
     (if b \<le> 0x7F then well_formed_utf8 bs
      else if in_range b 0xC2 0xDF then
        (case bs of
           b1 # r \<Rightarrow> in_range b1 0x80 0xBF \<and> well_formed_utf8 r
         | _ \<Rightarrow> False)
      else if in_range b 0xE0 0xEF then
        (case bs of
           b1 # b2 # r \<Rightarrow>
             in_range b1 (if b = 0xE0 then 0xA0 else 0x80) (if b = 0xED then 0x9F else 0xBF)
             \<and> in_range b2 0x80 0xBF \<and> well_formed_utf8 r
         | _ \<Rightarrow> False)
      else if in_range b 0xF0 0xF4 then
        (case bs of
           b1 # b2 # b3 # r \<Rightarrow>
             in_range b1 (if b = 0xF0 then 0x90 else 0x80) (if b = 0xF4 then 0x8F else 0xBF)
             \<and> in_range b2 0x80 0xBF \<and> in_range b3 0x80 0xBF \<and> well_formed_utf8 r
         | _ \<Rightarrow> False)
      else False)"

section \<open>An example world\<close>

text \<open>
  A concrete world for the examples. \<open>urlparse_model\<close> splits a URL into scheme, network
  location and path as \<open>urlparse\<close> does for the URLs used below.
\<close>

definition ascii_bytes :: "string \<Rightarrow> bytes" where
  "ascii_bytes s = map of_char s"

definition scheme_char :: "nat \<Rightarrow> bool" where
  "scheme_char c =
     ((97 \<le> c \<and> c \<le> 122) \<or> (65 \<le> c \<and> c \<le> 90) \<or> (48 \<le> c \<and> c \<le> 57)
      \<or> c = 43 \<or> c = 45 \<or> c = 46)"

definition urlparse_model :: "str \<Rightarrow> parse_result" where
  "urlparse_model url =
     (let pre = takeWhile (\<lambda>c. c \<noteq> 58) url;
          has_scheme = (length pre < length url \<and> pre \<noteq> []
                        \<and> list_all scheme_char pre \<and> \<not> (48 \<le> hd pre \<and> hd pre \<le> 57)
                        \<and> hd pre \<noteq> 43 \<and> hd pre \<noteq> 45 \<and> hd pre \<noteq> 46);
          rest = (if has_scheme then drop (length pre + 1) url else url);
          has_netloc = startswith rest (ascii ''//'');
          after = (if has_netloc then drop 2 rest else rest);
          in_netloc = (\<lambda>c. c \<noteq> 47 \<and> c \<noteq> 63 \<and> c \<noteq> 35)
      in \<lparr>scheme = (if has_scheme then lower pre else []),
          netloc = (if has_netloc then takeWhile in_netloc after else []),
          path = takeWhile (\<lambda>c. c \<noteq> 63 \<and> c \<noteq> 35)
                   (if has_netloc then dropWhile in_netloc after else after)\<rparr>)"

definition sample_pdf :: bytes where
  "sample_pdf = ascii_bytes ''%PDF-1.4 two pages''"

definition blank_pdf :: bytes where
  "blank_pdf = ascii_bytes ''%PDF-1.4 scanned''"

definition html_response :: response where
  "html_response =
     \<lparr>status_code = 200,
      headers = [ascii ''content-type'' \<mapsto> ascii ''text/html''],
      resp_content = ascii_bytes ''<p>x</p>'',
      resp_text = ascii ''<p>x</p>''\<rparr>"

text \<open>
  The validation of a form in the example world: a missing or empty value takes the
  default of its parameter, the temperature must be one of the floats the examples use
  (every other text stands for one that is no float), and \<open>file\<close> must be a file.
\<close>

definition text_value :: "raw_form \<Rightarrow> string \<Rightarrow> str option" where
  "text_value raw name =
     (case map_of raw (ascii name) of
        Some (Inl s) \<Rightarrow> if s = [] then None else Some s
      | _ \<Rightarrow> None)"

definition float_model :: "str \<Rightarrow> real option" where
  "float_model s =
     (if s = ascii ''0.2'' then Some 0.2
      else if s = ascii ''0.7'' then Some 0.7
      else if s = ascii ''1'' then Some 1
      else None)"

definition form_model :: "raw_form \<Rightarrow> form option" where
  "form_model raw =
     (case (case text_value raw ''temperature'' of
              None \<Rightarrow> Some 0.2
            | Some t \<Rightarrow> float_model t,
            case map_of raw (ascii ''file'') of
              None \<Rightarrow> Some None
            | Some (Inl s) \<Rightarrow> if s = [] then Some None else None
            | Some (Inr u) \<Rightarrow> Some (Some u)) of
        (Some t, Some u) \<Rightarrow>
          Some \<lparr>domain = (case text_value raw ''domain'' of
                           None \<Rightarrow> ascii ''ML'' | Some v \<Rightarrow> v),
                tone = (case text_value raw ''tone'' of
                          None \<Rightarrow> ascii ''mean reviewer who is strict but fair''
                        | Some v \<Rightarrow> v),
                language = (case text_value raw ''language'' of
                              None \<Rightarrow> ascii ''zh'' | Some v \<Rightarrow> v),
                model = (case text_value raw ''model'' of
                           None \<Rightarrow> ascii ''gpt-4o-mini'' | Some v \<Rightarrow> v),
                base_url = text_value raw ''base_url'',
                api_key = text_value raw ''api_key'',
                temperature = t,
                paper_url = text_value raw ''paper_url'',
                upload_file = u\<rparr>
      | _ \<Rightarrow> None)"

definition env0 :: env where
  "env0 =
     \<lparr>stdin_read = Inr (ascii '' typed text ''),
      urlparse = (\<lambda>s. Inr (urlparse_model s)),
      requests_get = (\<lambda>url tmo.
        if url = ascii ''http://h/a.pdf?x=1'' then Inr html_response
        else if url = ascii ''http://h/get?file=a.pdf'' then Inr html_response
        else if url = ascii ''http://h/page'' then Inr html_response
        else if url = ascii ''http://h/cached''
        then Inr \<lparr>status_code = 304, headers = Map.empty, resp_content = [], resp_text = []\<rparr>
        else if url = ascii ''http://h/gone''
        then Inr \<lparr>status_code = 404, headers = Map.empty, resp_content = [], resp_text = []\<rparr>
        else if url = ascii ''https://h/paper''
        then Inr \<lparr>status_code = 200,
                  headers = [ascii ''content-type'' \<mapsto> ascii ''Application/PDF''],
                  resp_content = sample_pdf, resp_text = []\<rparr>
        else Inl (Raised (ascii ''ConnectionError''))),
      open_file = (\<lambda>p.
        if p = ascii ''sample.txt'' then Inr (ascii_bytes ''Paper body text'')
        else if p = ascii ''dos.txt'' then Inr [0x61, 0x0D, 0x0A, 0x62]
        else if p = ascii ''latin1.txt'' then Inr [0x63, 0x61, 0x66, 0xE9]
        else if p = ascii ''blank.txt'' then Inr [0x20, 0x0A]
        else if p = ascii ''draft.PDF'' then Inr sample_pdf
        else Inl (Raised (ascii ''FileNotFoundError''))),
      PdfReader = (\<lambda>raw.
        if raw = sample_pdf then Inr [Inr (Some (ascii ''Intro'')), Inr (Some (ascii ''Results''))]
        else if raw = blank_pdf then Inr [Inr None, Inr (Some []), Inr None]
        else Inl (Raised (ascii ''PdfReadError''))),
      chat_completions_create = (\<lambda>cl m tmp msgs.
        Inr \<lparr>choices = [\<lparr>message_content = Some (ascii ''Summary: fine'')\<rparr>]\<rparr>),
      write_file = (\<lambda>p s. Inr ()),
      empty_key_error = Some OpenAIError\<rparr>"

definition args0 :: args where
  "args0 =
     \<lparr>domain = ascii ''CV'', tone = ascii ''mean reviewer who is strict but fair'',
      language = ascii ''en'', model = ascii ''test-model'', base_url = None,
      api_key = Some (ascii ''sk-test''), temperature = 0.2,
      paper = ascii ''sample.txt'', output_file = None\<rparr>"

definition upload0 :: upload where
  "upload0 =
     \<lparr>filename = Some (ascii ''draft.pdf''), content_type = Some (ascii ''application/pdf''),
      data = sample_pdf\<rparr>"

definition form0 :: form where
  "form0 =
     \<lparr>domain = ascii ''ML'', tone = ascii ''mean reviewer who is strict but fair'',
      language = ascii ''zh'', model = ascii ''gpt-4o-mini'', base_url = None,
      api_key = Some (ascii ''sk-test''), temperature = 0.2,
      paper_url = Some (ascii ''http://h/page''), upload_file = Some upload0\<rparr>"

text \<open>
  Three more examples: a world whose PDF library parses every document into two pages
  and raises when it extracts the second; a world whose API answers without a choice;
  and a form without \<open>api_key\<close> whose temperature is no float.
\<close>

definition env_page_error :: env where
  "env_page_error =
     env0\<lparr>PdfReader := \<lambda>raw. Inr [Inr (Some (ascii ''Intro'')), Inl (Raised (ascii ''KeyError''))]\<rparr>"

definition env_no_choice :: env where
  "env_no_choice = env0\<lparr>chat_completions_create := \<lambda>cl m tmp msgs. Inr \<lparr>choices = []\<rparr>\<rparr>"

definition raw_no_key_bad_temperature :: raw_form where
  "raw_no_key_bad_temperature =
     [(ascii ''paper_url'', Inl (ascii ''http://h/page'')),
      (ascii ''temperature'', Inl (ascii ''abc''))]"

section \<open>Facts about strings\<close>

lemma ascii_Nil: "ascii [] = []"
  by (simp add: ascii_def)

lemma ascii_Cons: "ascii (c # cs) = of_char c # ascii cs"
  by (simp add: ascii_def)

lemma ascii_bytes_Nil: "ascii_bytes [] = []"
  by (simp add: ascii_bytes_def)

lemma ascii_bytes_Cons: "ascii_bytes (c # cs) = of_char c # ascii_bytes cs"
  by (simp add: ascii_bytes_def)

section \<open>The prompt builder\<close>

lemma zh_template_suffix: "suffix p (zh_template d p)"
  unfolding zh_template_def by (intro suffix_appendI suffix_order.refl)

lemma en_template_suffix: "suffix p (en_template d p)"
  unfolding en_template_def by (intro suffix_appendI suffix_order.refl)

lemma build_messages_eq:
  "build_messages d t p l =
     [\<lparr>role = ascii ''system'',
       content = ascii ''You are a seasoned reviewer in '' @ d @ ascii ''. ''
            @ ascii ''Maintain a strict, skeptical, concise tone: '' @ t @ ascii ''. ''
            @ ascii ''Respond using the requested language.''\<rparr>,
      \<lparr>role = ascii ''user'',
       content = (if startswith (lower l) (ascii ''zh'') then zh_template d p
                  else en_template d p)\<rparr>]"
  by (simp add: build_messages_def Let_def)

text \<open>
  C2. For every domain, tone, language and paper text, \<open>build_messages\<close> returns exactly
  two messages, the first with the role \<open>system\<close> and the second with the role \<open>user\<close>,
  and the content of the user message contains the whole paper text as it is: the
  content even ends with it.
\<close>

theorem build_messages_system_user:
  "length (build_messages d t p l) = 2
   \<and> map role (build_messages d t p l) = [ascii ''system'', ascii ''user'']
   \<and> sublist p (content (build_messages d t p l ! 1))
   \<and> suffix p (content (build_messages d t p l ! 1))"
  by (simp add: build_messages_eq zh_template_suffix en_template_suffix suffix_imp_sublist)

lemma startswith_lower_zh: "startswith (lower l) (ascii ''zh'') = zh_prefix_ci l"
  by (auto simp: startswith_def lower_def lower_cp_def ascii_Cons ascii_Nil zh_prefix_ci_def
           split: list.splits)

lemma zh_en_differ: "zh_template d p \<noteq> en_template d' p'"
  by (simp add: zh_template_def en_template_def ascii_Cons)

text \<open>
  C3. For every language string, the user message is built from the Chinese template
  exactly when the language starts with \<open>zh\<close> in any letter case, and from the English
  template exactly when it does not; the two templates never give the same text. So
  \<open>zh\<close>, \<open>zh-CN\<close>, \<open>zh_TW\<close> and \<open>ZH\<close> select the Chinese template, and \<open>en-US\<close>, \<open>fr\<close>
  and the empty string select the English one.
\<close>

theorem build_messages_template_choice:
  "(content (build_messages d t p l ! 1) = zh_template d p) = zh_prefix_ci l
   \<and> (content (build_messages d t p l ! 1) = en_template d p) = (\<not> zh_prefix_ci l)
   \<and> zh_prefix_ci (ascii ''zh'') \<and> zh_prefix_ci (ascii ''zh-CN'')
   \<and> zh_prefix_ci (ascii ''zh_TW'') \<and> zh_prefix_ci (ascii ''ZH'')
   \<and> \<not> zh_prefix_ci (ascii ''en-US'') \<and> \<not> zh_prefix_ci (ascii ''fr'')
   \<and> \<not> zh_prefix_ci []"
proof -
  have "(content (build_messages d t p l ! 1) = zh_template d p) = zh_prefix_ci l"
    using zh_en_differ [of d p d p] by (auto simp: build_messages_eq startswith_lower_zh)
  moreover have "(content (build_messages d t p l ! 1) = en_template d p) = (\<not> zh_prefix_ci l)"
    using zh_en_differ [of d p d p] by (auto simp: build_messages_eq startswith_lower_zh)
  moreover have "zh_prefix_ci (ascii ''zh'')" "zh_prefix_ci (ascii ''zh-CN'')"
    "zh_prefix_ci (ascii ''zh_TW'')" "zh_prefix_ci (ascii ''ZH'')"
    "\<not> zh_prefix_ci (ascii ''en-US'')" "\<not> zh_prefix_ci (ascii ''fr'')"
    "\<not> zh_prefix_ci []"
    by (simp_all add: zh_prefix_ci_def ascii_Cons ascii_Nil)
  ultimately show ?thesis by blast
qed

section \<open>Evaluating the example world\<close>

lemmas str_eval = ascii_Cons ascii_Nil ascii_bytes_Cons ascii_bytes_Nil lower_def lower_cp_def
  startswith_def endswith_def

lemmas world_eval = env0_def urlparse_model_def scheme_char_def html_response_def
  sample_pdf_def blank_pdf_def Let_def

lemmas reader_eval = read_paper_def read_from_url_def read_pdf_def read_text_file_def
  read_pdf_bytes_def read_pdf_bytes_inner_def raise_for_status_def headers_get_def or_empty_def

section \<open>The PDF extractor\<close>

lemma page_texts_map_Inr: "page_texts (map Inr ts) = Inr (map or_empty ts)"
  by (induction ts) simp_all

lemma page_texts_Inl: "page_texts ps = Inl e \<Longrightarrow> Inl e \<in> set ps"
  by (induction ps) (auto split: sum.splits)

lemma length_join:
  "length (join sep xs) = sum_list (map length xs) + length sep * (length xs - 1)"
  by (induction sep xs rule: join.induct) simp_all

lemma count_list_join:
  "count_list (join [c] xs) c = sum_list (map (\<lambda>x. count_list x c) xs) + (length xs - 1)"
  by (induction "[c]" xs rule: join.induct) simp_all

lemma join_blank: "\<forall>x\<in>set xs. x = [] \<Longrightarrow> join [c] xs = replicate (length xs - 1) c"
  by (induction "[c]" xs rule: join.induct) simp_all

lemma page_texts_first_error: "page_texts (map Inr ts @ Inl e # rest) = Inl e"
  by (induction ts) simp_all

text \<open>
  C4, as the code has it. Let the PDF library parse the bytes into N pages and return
  from \<open>extract_text\<close> on each page, with a text or with nothing (\<open>ts\<close> lists what it
  returns, in page order). Then \<open>read_pdf_bytes\<close> returns the page texts joined in page
  order by single newlines, a page without text counting as the empty string: the
  result is as long as the texts together plus N - 1, and holds N - 1 newlines more than
  the texts do (none for a document without pages). If no page has text the result is
  N - 1 newlines and nothing else. \<open>read_pdf_bytes\<close> fails when the library cannot
  parse the bytes, and also when the bytes parse and \<open>extract_text\<close> raises on a page:
  the exception of the first such page is the result. It fails in no other case, so
  never because pages have no text.
\<close>

theorem read_pdf_bytes_joins_pages:
  "(PdfReader env raw = Inr (map Inr ts) \<longrightarrow>
      read_pdf_bytes env raw = Inr (join [10] (map or_empty ts))
      \<and> length (join [10] (map or_empty ts))
          = sum_list (map (\<lambda>t. length (or_empty t)) ts) + (length ts - 1)
      \<and> count_list (join [10] (map or_empty ts)) 10
          = sum_list (map (\<lambda>t. count_list (or_empty t) 10) ts) + (length ts - 1)
      \<and> ((\<forall>t\<in>set ts. t = None \<or> t = Some []) \<longrightarrow>
           read_pdf_bytes env raw = Inr (replicate (length ts - 1) 10)))
   \<and> (\<forall>e. PdfReader env raw = Inl e \<longrightarrow> read_pdf_bytes env raw = Inl e)
   \<and> (\<forall>us e rest. PdfReader env raw = Inr (map Inr us @ Inl e # rest) \<longrightarrow>
         read_pdf_bytes env raw = Inl e)
   \<and> (\<forall>e. read_pdf_bytes env raw = Inl e \<longrightarrow>
         PdfReader env raw = Inl e
         \<or> (\<exists>pages. PdfReader env raw = Inr pages \<and> Inl e \<in> set pages))"
proof (intro conjI impI allI)
  assume "PdfReader env raw = Inr (map Inr ts)"
  then show r: "read_pdf_bytes env raw = Inr (join [10] (map or_empty ts))"
    by (simp add: read_pdf_bytes_def read_pdf_bytes_inner_def page_texts_map_Inr)
  show "length (join [10] (map or_empty ts))
          = sum_list (map (\<lambda>t. length (or_empty t)) ts) + (length ts - 1)"
    by (simp add: length_join comp_def)
  show "count_list (join [10] (map or_empty ts)) 10
          = sum_list (map (\<lambda>t. count_list (or_empty t) 10) ts) + (length ts - 1)"
    by (simp add: count_list_join comp_def)
  assume "\<forall>t\<in>set ts. t = None \<or> t = Some []"
  then have "\<forall>x\<in>set (map or_empty ts). x = []"
    by (auto simp: or_empty_def)
  then show "read_pdf_bytes env raw = Inr (replicate (length ts - 1) 10)"
    using r join_blank [of "map or_empty ts" 10] by simp
next
  fix e assume "PdfReader env raw = Inl e"
  then show "read_pdf_bytes env raw = Inl e"
    by (simp add: read_pdf_bytes_def read_pdf_bytes_inner_def)
next
  fix us e rest assume "PdfReader env raw = Inr (map Inr us @ Inl e # rest)"
  then show "read_pdf_bytes env raw = Inl e"
    by (simp add: read_pdf_bytes_def read_pdf_bytes_inner_def page_texts_first_error)
next
  fix e assume "read_pdf_bytes env raw = Inl e"
  then show "PdfReader env raw = Inl e
         \<or> (\<exists>pages. PdfReader env raw = Inr pages \<and> Inl e \<in> set pages)"
    by (auto simp: read_pdf_bytes_def read_pdf_bytes_inner_def
             split: sum.splits dest: page_texts_Inl)
qed

lemma sample_ne_blank: "sample_pdf \<noteq> blank_pdf"
  by (simp add: sample_pdf_def blank_pdf_def ascii_bytes_def)

text \<open>
  In the example world: a document of three pages without text gives two newlines, the
  document with the pages \<open>Intro\<close> and \<open>Results\<close> gives the two texts with one newline
  between them, and bytes that are no PDF give the error of the library. In the world
  \<open>env_page_error\<close> the exception of the second page is the result.
\<close>

theorem read_pdf_bytes_joins_pages_witness:
  "PdfReader env0 blank_pdf = Inr (map Inr [None, Some [], None])
   \<and> read_pdf_bytes env0 blank_pdf = Inr [10, 10]
   \<and> PdfReader env0 sample_pdf = Inr (map Inr [Some (ascii ''Intro''), Some (ascii ''Results'')])
   \<and> read_pdf_bytes env0 sample_pdf = Inr (ascii ''Intro'' @ [10] @ ascii ''Results'')
   \<and> PdfReader env0 [] = Inl (Raised (ascii ''PdfReadError''))
   \<and> read_pdf_bytes env0 [] = Inl (Raised (ascii ''PdfReadError''))
   \<and> PdfReader env_page_error sample_pdf
       = Inr [Inr (Some (ascii ''Intro'')), Inl (Raised (ascii ''KeyError''))]
   \<and> read_pdf_bytes env_page_error sample_pdf = Inl (Raised (ascii ''KeyError''))"
proof -
  have p: "PdfReader env_page_error sample_pdf
             = Inr (map Inr [Some (ascii ''Intro'')] @ Inl (Raised (ascii ''KeyError'')) # [])"
    by (simp add: env_page_error_def)
  note q = read_pdf_bytes_joins_pages
             [of env_page_error sample_pdf "[]",
              THEN conjunct2, THEN conjunct2, THEN conjunct1, rule_format, OF p]
  have b: "PdfReader env0 blank_pdf = Inr (map Inr [None, Some [], None])"
    using sample_ne_blank by (simp add: env0_def)
  have s: "PdfReader env0 sample_pdf
             = Inr (map Inr [Some (ascii ''Intro''), Some (ascii ''Results'')])"
    by (simp add: env0_def)
  have e: "PdfReader env0 [] = Inl (Raised (ascii ''PdfReadError''))"
    by (simp add: env0_def sample_pdf_def blank_pdf_def ascii_bytes_def)
  have e': "read_pdf_bytes env0 [] = Inl (Raised (ascii ''PdfReadError''))"
    using e by (simp add: read_pdf_bytes_def read_pdf_bytes_inner_def)
  show ?thesis
    using read_pdf_bytes_joins_pages [of env0 blank_pdf "[None, Some [], None]"]
          read_pdf_bytes_joins_pages
            [of env0 sample_pdf "[Some (ascii ''Intro''), Some (ascii ''Results'')]"]
          b s e e' p q
    by (simp add: or_empty_def)
qed

text \<open>
  C4 as the specification states it fails where a page cannot be extracted: in the
  world \<open>env_page_error\<close> the bytes parse into two pages, so they can be parsed as a
  PDF, and \<open>read_pdf_bytes\<close> fails with the exception of the second page.
\<close>

theorem read_pdf_bytes_page_error_counterexample:
  "\<not> spec_pdf_result env_page_error sample_pdf (read_pdf_bytes env_page_error sample_pdf)
   \<and> PdfReader env_page_error sample_pdf
       = Inr [Inr (Some (ascii ''Intro'')), Inl (Raised (ascii ''KeyError''))]
   \<and> read_pdf_bytes env_page_error sample_pdf = Inl (Raised (ascii ''KeyError''))"
  by (simp add: spec_pdf_result_def env_page_error_def read_pdf_bytes_def
        read_pdf_bytes_inner_def or_empty_def)

section \<open>The source reader\<close>

lemma universal_newlines_no_cr: "13 \<notin> set s \<Longrightarrow> universal_newlines s = s"
  by (induction s rule: universal_newlines.induct) auto

lemma lower_content_type: "lower (ascii ''content-type'') = ascii ''content-type''"
  by (simp add: lower_def lower_cp_def ascii_Cons ascii_Nil)

text \<open>
  C1, as the code has it. For every source other than \<open>-\<close> that \<open>urlparse\<close> gives the
  scheme http or https, \<open>read_paper\<close> does one HTTP GET of the source with the timeout
  30 and nothing else. An exception of the GET is the result. A response with a status
  from 400 to 599 gives \<open>HTTPError\<close>. Any other response goes to the PDF extractor,
  with its bytes, exactly when its lower-cased content type contains \<open>pdf\<close> or the
  lower-cased source, the whole string with query and fragment, ends with \<open>.pdf\<close>;
  otherwise the result is the text of the response.
\<close>

theorem read_paper_url:
  assumes "src \<noteq> ascii ''-''" and "urlparse env src = Inr u"
    and "scheme u = ascii ''http'' \<or> scheme u = ascii ''https''"
  shows "fst (read_paper env src) = [HttpGet src 30]
    \<and> (\<forall>e. requests_get env src 30 = Inl e \<longrightarrow> snd (read_paper env src) = Inl e)
    \<and> (\<forall>r. requests_get env src 30 = Inr r \<longrightarrow>
         snd (read_paper env src) =
           (if 400 \<le> status_code r \<and> status_code r < 600 then Inl (HTTPError (status_code r))
            else if str_contains (ascii ''pdf'')
                      (lower (or_empty (headers r (ascii ''content-type''))))
                    \<or> endswith (lower src) (ascii ''.pdf'')
                 then read_pdf_bytes env (resp_content r)
                 else Inr (resp_text r)))"
  using assms
  by (auto simp: read_paper_def read_from_url_def raise_for_status_def headers_get_def
        lower_content_type or_empty_def read_pdf_bytes_def Let_def split: option.splits)

text \<open>
  In the example world: a response with the content type \<open>Application/PDF\<close> is read as
  a PDF, a 404 fails, an HTML page is taken as text, a failed connection fails.
\<close>

theorem read_paper_url_witness:
  "read_paper env0 (ascii ''https://h/paper'')
     = ([HttpGet (ascii ''https://h/paper'') 30], Inr (ascii ''Intro'' @ [10] @ ascii ''Results''))
   \<and> snd (read_paper env0 (ascii ''http://h/gone'')) = Inl (HTTPError 404)
   \<and> snd (read_paper env0 (ascii ''http://h/page'')) = Inr (ascii ''<p>x</p>'')
   \<and> snd (read_paper env0 (ascii ''http://h/down'')) = Inl (Raised (ascii ''ConnectionError''))"
proof -
  have "fst (read_paper env0 (ascii ''https://h/paper'')) = [HttpGet (ascii ''https://h/paper'') 30]
      \<and> snd (read_paper env0 (ascii ''https://h/paper''))
          = Inr (ascii ''Intro'' @ [10] @ ascii ''Results'')"
    using read_paper_url
            [of "ascii ''https://h/paper''" env0 "urlparse_model (ascii ''https://h/paper'')"]
    by (simp add: world_eval str_eval read_pdf_bytes_def read_pdf_bytes_inner_def or_empty_def)
  then have "read_paper env0 (ascii ''https://h/paper'')
     = ([HttpGet (ascii ''https://h/paper'') 30], Inr (ascii ''Intro'' @ [10] @ ascii ''Results''))"
    by (metis prod.collapse)
  moreover have "snd (read_paper env0 (ascii ''http://h/gone'')) = Inl (HTTPError 404)"
    using read_paper_url
            [of "ascii ''http://h/gone''" env0 "urlparse_model (ascii ''http://h/gone'')"]
    by (simp add: world_eval str_eval)
  moreover have "snd (read_paper env0 (ascii ''http://h/page'')) = Inr (ascii ''<p>x</p>'')"
    using read_paper_url
            [of "ascii ''http://h/page''" env0 "urlparse_model (ascii ''http://h/page'')"]
    by (simp add: world_eval str_eval or_empty_def)
  moreover have "snd (read_paper env0 (ascii ''http://h/down''))
                   = Inl (Raised (ascii ''ConnectionError''))"
    using read_paper_url
            [of "ascii ''http://h/down''" env0 "urlparse_model (ascii ''http://h/down'')"]
    by (simp add: world_eval str_eval)
  ultimately show ?thesis by blast
qed

text \<open>
  C1 as the specification states it fails in the example world, three times. The URL
  \<open>http://h/a.pdf?x=1\<close> has the path \<open>/a.pdf\<close> and the content type \<open>text/html\<close>: the
  specification sends it to the PDF extractor, the code returns its text. The URL
  \<open>http://h/get?file=a.pdf\<close> has the path \<open>/get\<close> and the same content type: the
  specification takes its text, the code sends the page to the PDF extractor, which
  fails. The URL \<open>http://h/cached\<close> is answered with the status 304: the specification
  fails, the code returns the empty body.
\<close>

theorem read_paper_url_spec_counterexample:
  "\<not> spec_url_result env0 (ascii ''http://h/a.pdf?x=1'')
        (snd (read_paper env0 (ascii ''http://h/a.pdf?x=1'')))
   \<and> urlparse env0 (ascii ''http://h/a.pdf?x=1'')
       = Inr \<lparr>scheme = ascii ''http'', netloc = ascii ''h'', path = ascii ''/a.pdf''\<rparr>
   \<and> read_paper env0 (ascii ''http://h/a.pdf?x=1'')
       = ([HttpGet (ascii ''http://h/a.pdf?x=1'') 30], Inr (ascii ''<p>x</p>''))
   \<and> read_pdf_bytes env0 (ascii_bytes ''<p>x</p>'') = Inl (Raised (ascii ''PdfReadError''))
   \<and> \<not> spec_url_result env0 (ascii ''http://h/get?file=a.pdf'')
        (snd (read_paper env0 (ascii ''http://h/get?file=a.pdf'')))
   \<and> urlparse env0 (ascii ''http://h/get?file=a.pdf'')
       = Inr \<lparr>scheme = ascii ''http'', netloc = ascii ''h'', path = ascii ''/get''\<rparr>
   \<and> read_paper env0 (ascii ''http://h/get?file=a.pdf'')
       = ([HttpGet (ascii ''http://h/get?file=a.pdf'') 30], Inl (Raised (ascii ''PdfReadError'')))
   \<and> \<not> spec_url_result env0 (ascii ''http://h/cached'')
        (snd (read_paper env0 (ascii ''http://h/cached'')))
   \<and> read_paper env0 (ascii ''http://h/cached'') = ([HttpGet (ascii ''http://h/cached'') 30], Inr [])"
  by (simp add: spec_url_result_def spec_pdf_signal_def world_eval str_eval reader_eval)

text \<open>
  C5, as the code has it. The source \<open>-\<close> reads standard input and nothing else. For any
  other source an exception of \<open>urlparse\<close> is the result; if \<open>urlparse\<close> returns, a
  scheme http or https means the source is fetched (one GET, no file is opened);
  otherwise a source ending in \<open>.pdf\<close>, in any letter case, is opened and its bytes go to
  the PDF extractor; otherwise the file is opened, decoded as UTF-8 (an error if it is
  not UTF-8) and returned untrimmed, every \<open>\r\n\<close> and every other \<open>\r\<close> replaced by
  \<open>\n\<close>: a text without \<open>\r\<close> is returned as it is.
\<close>

theorem read_paper_dispatch:
  "(src = ascii ''-'' \<longrightarrow> read_paper env src = ([StdinRead], stdin_read env))
   \<and> (src \<noteq> ascii ''-'' \<longrightarrow>
        (\<forall>e. urlparse env src = Inl e \<longrightarrow> read_paper env src = ([], Inl e)) \<and>
        (\<forall>u. urlparse env src = Inr u \<longrightarrow>
           read_paper env src =
             (if scheme u = ascii ''http'' \<or> scheme u = ascii ''https''
              then read_from_url env src
              else if endswith (lower src) (ascii ''.pdf'')
              then ([OpenFile src],
                    case open_file env src of
                      Inl e \<Rightarrow> Inl e
                    | Inr raw \<Rightarrow> read_pdf_bytes env raw)
              else ([OpenFile src],
                    case open_file env src of
                      Inl e \<Rightarrow> Inl e
                    | Inr raw \<Rightarrow>
                        (case decode_utf8 Strict raw of
                           Inl e \<Rightarrow> Inl e
                         | Inr s \<Rightarrow> Inr (universal_newlines s))))))
   \<and> fst (read_from_url env src) = [HttpGet src 30]
   \<and> (13 \<notin> set s \<longrightarrow> universal_newlines s = s)"
  by (auto simp: read_paper_def read_pdf_def read_text_file_def read_pdf_bytes_def
        read_pdf_bytes_inner_def read_from_url_def universal_newlines_no_cr
        split: sum.splits)

text \<open>
  In the example world: \<open>-\<close> gives standard input with its blanks, a URL is fetched,
  \<open>draft.PDF\<close> is read as a PDF, \<open>sample.txt\<close> and \<open>blank.txt\<close> are returned as they
  are, a missing file fails.
\<close>

theorem read_paper_dispatch_witness:
  "read_paper env0 (ascii ''-'') = ([StdinRead], Inr (ascii '' typed text ''))
   \<and> read_paper env0 (ascii ''http://h/page'')
       = ([HttpGet (ascii ''http://h/page'') 30], Inr (ascii ''<p>x</p>''))
   \<and> read_paper env0 (ascii ''draft.PDF'')
       = ([OpenFile (ascii ''draft.PDF'')], Inr (ascii ''Intro'' @ [10] @ ascii ''Results''))
   \<and> read_paper env0 (ascii ''sample.txt'')
       = ([OpenFile (ascii ''sample.txt'')], Inr (ascii ''Paper body text''))
   \<and> read_paper env0 (ascii ''blank.txt'') = ([OpenFile (ascii ''blank.txt'')], Inr [32, 10])
   \<and> read_paper env0 (ascii ''none.txt'')
       = ([OpenFile (ascii ''none.txt'')], Inl (Raised (ascii ''FileNotFoundError'')))"
proof -
  have "read_paper env0 (ascii ''-'') = ([StdinRead], Inr (ascii '' typed text ''))"
    using read_paper_dispatch [of "ascii ''-''" env0 "[]"] by (simp add: env0_def)
  moreover have "read_paper env0 (ascii ''http://h/page'')
       = ([HttpGet (ascii ''http://h/page'') 30], Inr (ascii ''<p>x</p>''))"
    using read_paper_dispatch [of "ascii ''http://h/page''" env0 "[]"]
    by (simp add: world_eval str_eval reader_eval)
  moreover have "read_paper env0 (ascii ''draft.PDF'')
       = ([OpenFile (ascii ''draft.PDF'')], Inr (ascii ''Intro'' @ [10] @ ascii ''Results''))"
    using read_paper_dispatch [of "ascii ''draft.PDF''" env0 "[]"]
    by (simp add: world_eval str_eval read_pdf_bytes_def read_pdf_bytes_inner_def or_empty_def)
  moreover have "read_paper env0 (ascii ''sample.txt'')
       = ([OpenFile (ascii ''sample.txt'')], Inr (ascii ''Paper body text''))"
    using read_paper_dispatch [of "ascii ''sample.txt''" env0 "[]"]
    by (simp add: world_eval str_eval)
  moreover have "read_paper env0 (ascii ''blank.txt'')
       = ([OpenFile (ascii ''blank.txt'')], Inr [32, 10])"
    using read_paper_dispatch [of "ascii ''blank.txt''" env0 "[]"]
    by (simp add: world_eval str_eval)
  moreover have "read_paper env0 (ascii ''none.txt'')
       = ([OpenFile (ascii ''none.txt'')], Inl (Raised (ascii ''FileNotFoundError'')))"
    using read_paper_dispatch [of "ascii ''none.txt''" env0 "[]"]
    by (simp add: world_eval str_eval)
  ultimately show ?thesis by blast
qed

text \<open>
  C5 as the specification states it fails on a text file with a DOS line end: the file
  \<open>dos.txt\<close> holds \<open>a\r\nb\<close>, and \<open>read_paper\<close> returns \<open>a\nb\<close>.
\<close>

theorem read_paper_text_file_counterexample:
  "\<not> spec_text_file_result env0 (ascii ''dos.txt'') (snd (read_paper env0 (ascii ''dos.txt'')))
   \<and> open_file env0 (ascii ''dos.txt'') = Inr [0x61, 0x0D, 0x0A, 0x62]
   \<and> decode_utf8 Strict [0x61, 0x0D, 0x0A, 0x62] = Inr [0x61, 13, 10, 0x62]
   \<and> read_paper env0 (ascii ''dos.txt'') = ([OpenFile (ascii ''dos.txt'')], Inr [0x61, 10, 0x62])"
  by (simp add: spec_text_file_result_def world_eval str_eval reader_eval)

section \<open>The model caller\<close>

text \<open>
  C8, as the code has it. \<open>call_model\<close> makes one call of the API. An exception of the
  call is the result. For a response with at least one choice the result is the content
  of the first choice, and the empty string when the first choice has no content. For a
  response without a choice, \<open>response.choices[0]\<close> raises \<open>IndexError\<close>.
\<close>

theorem call_model_first_choice:
  "fst (call_model env cl m msgs tmp) = [ChatCreate cl m tmp msgs]
   \<and> (\<forall>e. chat_completions_create env cl m tmp msgs = Inl e \<longrightarrow>
         snd (call_model env cl m msgs tmp) = Inl e)
   \<and> (\<forall>resp. chat_completions_create env cl m tmp msgs = Inr resp \<longrightarrow>
         snd (call_model env cl m msgs tmp) =
           (case choices resp of
              [] \<Rightarrow> Inl IndexError
            | c # cs \<Rightarrow> (case message_content c of None \<Rightarrow> Inr [] | Some s \<Rightarrow> Inr s)))"
  by (simp add: call_model_def or_empty_def split: list.splits option.splits)

text \<open>
  In the example world the first choice says \<open>Summary: fine\<close>; with an API whose first
  choice has no content, the result is the empty string; an error of the API is the
  result.
\<close>

theorem call_model_first_choice_witness:
  "snd (call_model env0 \<lparr>client_api_key = ascii ''sk-test'', client_base_url = None\<rparr>
          (ascii ''test-model'') [] 0.2) = Inr (ascii ''Summary: fine'')
   \<and> snd (call_model
            (env0\<lparr>chat_completions_create :=
                    \<lambda>cl m tmp msgs. Inr \<lparr>choices = [\<lparr>message_content = None\<rparr>,
                                                    \<lparr>message_content = Some (ascii ''second'')\<rparr>]\<rparr>\<rparr>)
            \<lparr>client_api_key = ascii ''sk-test'', client_base_url = None\<rparr>
            (ascii ''test-model'') [] 0.2) = Inr []
   \<and> snd (call_model
            (env0\<lparr>chat_completions_create :=
                    \<lambda>cl m tmp msgs. Inl (Raised (ascii ''RateLimitError''))\<rparr>)
            \<lparr>client_api_key = ascii ''sk-test'', client_base_url = None\<rparr>
            (ascii ''test-model'') [] 0.2) = Inl (Raised (ascii ''RateLimitError''))"
proof -
  have "snd (call_model env0 \<lparr>client_api_key = ascii ''sk-test'', client_base_url = None\<rparr>
          (ascii ''test-model'') [] 0.2) = Inr (ascii ''Summary: fine'')"
    using call_model_first_choice [of env0 "\<lparr>client_api_key = ascii ''sk-test'', client_base_url = None\<rparr>"
                "ascii ''test-model''" "[]" "0.2"]
    by (simp add: env0_def)
  moreover have "snd (call_model
            (env0\<lparr>chat_completions_create :=
                    \<lambda>cl m tmp msgs. Inr \<lparr>choices = [\<lparr>message_content = None\<rparr>,
                                                    \<lparr>message_content = Some (ascii ''second'')\<rparr>]\<rparr>\<rparr>)
            \<lparr>client_api_key = ascii ''sk-test'', client_base_url = None\<rparr>
            (ascii ''test-model'') [] 0.2) = Inr []"
    using call_model_first_choice [of "env0\<lparr>chat_completions_create :=
                    \<lambda>cl m tmp msgs. Inr \<lparr>choices = [\<lparr>message_content = None\<rparr>,
                                                    \<lparr>message_content = Some (ascii ''second'')\<rparr>]\<rparr>\<rparr>"
                "\<lparr>client_api_key = ascii ''sk-test'', client_base_url = None\<rparr>"
                "ascii ''test-model''" "[]" "0.2"]
    by simp
  moreover have "snd (call_model
            (env0\<lparr>chat_completions_create :=
                    \<lambda>cl m tmp msgs. Inl (Raised (ascii ''RateLimitError''))\<rparr>)
            \<lparr>client_api_key = ascii ''sk-test'', client_base_url = None\<rparr>
            (ascii ''test-model'') [] 0.2) = Inl (Raised (ascii ''RateLimitError''))"
    using call_model_first_choice [of "env0\<lparr>chat_completions_create :=
                    \<lambda>cl m tmp msgs. Inl (Raised (ascii ''RateLimitError''))\<rparr>"
                "\<lparr>client_api_key = ascii ''sk-test'', client_base_url = None\<rparr>"
                "ascii ''test-model''" "[]" "0.2"]
    by simp
  ultimately show ?thesis by blast
qed

text \<open>
  C8 as the specification states it fails on a response without a choice: in the world
  \<open>env_no_choice\<close> the API returns a response, and \<open>call_model\<close> returns no string but
  raises \<open>IndexError\<close>.
\<close>

theorem call_model_no_choice_counterexample:
  "\<not> spec_call_result env_no_choice \<lparr>client_api_key = ascii ''sk-test'', client_base_url = None\<rparr>
        (ascii ''test-model'') [] 0.2
        (snd (call_model env_no_choice
                \<lparr>client_api_key = ascii ''sk-test'', client_base_url = None\<rparr>
                (ascii ''test-model'') [] 0.2))
   \<and> chat_completions_create env_no_choice
         \<lparr>client_api_key = ascii ''sk-test'', client_base_url = None\<rparr>
         (ascii ''test-model'') 0.2 [] = Inr \<lparr>choices = []\<rparr>
   \<and> snd (call_model env_no_choice
            \<lparr>client_api_key = ascii ''sk-test'', client_base_url = None\<rparr>
            (ascii ''test-model'') [] 0.2) = Inl IndexError"
  by (simp add: spec_call_result_def env_no_choice_def call_model_def)

section \<open>Properties of the front ends\<close>

lemma OpenAI_key:
  "k \<noteq> [] \<Longrightarrow> OpenAI env (Some k) url = Inr \<lparr>client_api_key = k, client_base_url = url\<rparr>"
  by (simp add: OpenAI_def)

lemma rstrip_prefix: "\<exists>zs. s = rstrip s @ zs"
  unfolding rstrip_def by (metis rev_append rev_rev_ident takeWhile_dropWhile_id)

lemma lstrip_head: "lstrip s \<noteq> [] \<Longrightarrow> \<not> isspace_cp (hd (lstrip s))"
  unfolding lstrip_def by (rule hd_dropWhile)

lemma lstrip_strip: "lstrip (strip s) = strip s"
proof (cases "strip s = []")
  case True
  then show ?thesis by (simp add: lstrip_def)
next
  case False
  obtain zs where z: "lstrip s = strip s @ zs"
    using rstrip_prefix [of "lstrip s"] by (auto simp: strip_def)
  with False have "hd (strip s) = hd (lstrip s)" by simp
  moreover from z False have "lstrip s \<noteq> []" by auto
  ultimately have "\<not> isspace_cp (hd (strip s))" using lstrip_head by simp
  with False show ?thesis by (cases "strip s") (simp_all add: lstrip_def)
qed

lemma strip_strip: "strip (strip s) = strip s"
proof -
  have "strip (strip s) = rstrip (lstrip (strip s))" by (simp add: strip_def)
  also have "\<dots> = rstrip (strip s)" by (simp add: lstrip_strip)
  also have "\<dots> = strip s" by (simp add: strip_def rstrip_def)
  finally show ?thesis .
qed

lemma model_inputs_append: "model_inputs (xs @ ys) = model_inputs xs @ model_inputs ys"
  by (induction xs rule: model_inputs.induct) simp_all

lemma paper_reads_append: "paper_reads (xs @ ys) = paper_reads xs @ paper_reads ys"
  by (induction xs rule: paper_reads.induct) simp_all

lemma read_paper_no_model: "read_paper env s = (t, r) \<Longrightarrow> model_inputs t = []"
  by (auto simp: read_paper_def read_from_url_def read_pdf_def read_text_file_def
           split: sum.splits if_splits)

lemma main_model_inputs:
  "msgs \<in> set (model_inputs (fst (main env a))) \<Longrightarrow>
     \<exists>p. p \<noteq> [] \<and> strip p = p \<and> msgs = build_messages (domain a) (tone a) p (language a)"
  apply (cases "read_paper env (paper a)")
  apply (auto simp: main_def io_bind_def Let_def model_inputs_append read_paper_no_model
        call_model_def split: sum.splits if_splits prod.splits)
  using strip_strip apply blast+
  done

lemma main_empty:
  "read_paper env (paper a) = (t, Inr raw) \<Longrightarrow> strip raw = [] \<Longrightarrow>
     main env a = (t, Inl (SystemExit
               (ascii ''Paper text is empty; provide a text file or stdin input.'')))"
  by (simp add: main_def io_bind_def)

lemma review_empty_upload:
  "upload_file req = Some f \<Longrightarrow>
   (if endswith (lower (or_empty (filename f))) (ascii ''.pdf'')
        \<or> str_contains (ascii ''pdf'') (lower (or_empty (content_type f)))
     then read_pdf_bytes env (data f) else decode_utf8 Ignore (data f)) = Inr raw \<Longrightarrow>
   strip raw = [] \<Longrightarrow>
   fst (review env req) = [] \<and> http_status (snd (review env req)) = 400"
  by (auto simp: review_def io_bind_def Let_def http_status_def split: if_splits)

lemma review_empty_url:
  "upload_file req = None \<Longrightarrow> read_paper env (or_empty (paper_url req)) = (t, Inr raw) \<Longrightarrow>
   strip raw = [] \<Longrightarrow>
   http_status (snd (review env req)) = 400 \<and> model_inputs (fst (review env req)) = []"
  by (auto simp: review_def io_bind_def Let_def http_status_def read_paper_no_model)


lemma io_bind_model_inputs:
  assumes "model_inputs (fst m) = []"
    and "\<And>x t. m = (t, Inr x) \<Longrightarrow> \<forall>msgs\<in>set (model_inputs (fst (f x))). P msgs"
  shows "\<forall>msgs\<in>set (model_inputs (fst (io_bind m f))). P msgs"
proof (cases m)
  case (Pair t r)
  show ?thesis
  proof (cases r)
    case (Inl e)
    with Pair assms(1) show ?thesis by (simp add: io_bind_def)
  next
    case (Inr x)
    with Pair assms(1) assms(2) [of t x] show ?thesis
      by (cases "f x") (simp add: io_bind_def model_inputs_append)
  qed
qed

lemma call_model_inputs: "model_inputs (fst (call_model env cl m msgs tmp)) = [msgs]"
  by (simp add: call_model_def)

lemma io_bind_fst_Inr_nil:
  "fst (io_bind m (\<lambda>x. ([], g x))) = fst m"
  by (cases m) (auto simp: io_bind_def split: sum.splits)

lemma review_tail_inputs:
  "\<forall>msgs\<in>set (model_inputs (fst
      (let paper_text = strip raw in
             if paper_text = []
             then ([], Inl e0)
             else
               (case OpenAI env k b of
                  Inl e \<Rightarrow> ([], Inl e)
                | Inr cl \<Rightarrow>
                    (let messages = build_messages d tn paper_text l
                     in io_bind (call_model env cl m messages tmp)
                          (\<lambda>text. ([], Inr (g paper_text text)))))))).
     \<exists>p. p \<noteq> [] \<and> strip p = p \<and> msgs = build_messages d tn p l"
  using strip_strip [of raw]
  by (auto simp: Let_def io_bind_fst_Inr_nil call_model_inputs split: sum.splits)

lemma review_load_no_model:
  "model_inputs (fst
     (case upload_file req of
             Some f \<Rightarrow>
               if data f = []
               then ([], Inl e3)
               else
                 (let fname = or_empty (filename f);
                      ctype = lower (or_empty (content_type f))
                  in case (if endswith (lower fname) (ascii ''.pdf'')
                              \<or> str_contains (ascii ''pdf'') ctype
                           then read_pdf_bytes env (data f)
                           else decode_utf8 Ignore (data f)) of
                       Inl e \<Rightarrow> ([], Inl e)
                     | Inr t \<Rightarrow>
                         ([], Inr (t, if fname \<noteq> [] then fname else ascii ''uploaded-file'')))
           | None \<Rightarrow>
               if truthy (paper_url req)
               then io_bind (read_paper env (or_empty (paper_url req)))
                      (\<lambda>t. ([], Inr (t, or_empty (paper_url req))))
               else ([], Inr ([], [])))) = []"
proof (cases "upload_file req")
  case None
  obtain t r where "read_paper env (or_empty (paper_url req)) = (t, r)"
    by (cases "read_paper env (or_empty (paper_url req))")
  with None show ?thesis
    using read_paper_no_model [of env "or_empty (paper_url req)" t r]
    by (simp add: io_bind_fst_Inr_nil)
next
  case (Some f)
  then show ?thesis by (simp add: Let_def split: sum.splits)
qed

lemma review_model_inputs:
  "\<forall>msgs\<in>set (model_inputs (fst (review env req))).
     \<exists>p. p \<noteq> [] \<and> strip p = p
         \<and> msgs = build_messages (domain req) (tone req) p (language req)"
proof (cases "\<not> truthy (api_key req)")
  case True
  then show ?thesis by (simp add: review_def)
next
  case k: False
  show ?thesis
  proof (cases "\<not> (upload_file req \<noteq> None \<or> truthy (paper_url req))")
    case True
    with k show ?thesis by (simp add: review_def)
  next
    case u: False
    show ?thesis
      unfolding review_def
      apply (simp only: k u if_False)
      apply (rule io_bind_model_inputs)
       apply (rule review_load_no_model)
      subgoal for x t
        by (cases x, hypsubst, simp only: prod.case, rule review_tail_inputs)
      done
  qed
qed


text \<open>
  C6. In both front ends every message list sent to the model is built from a paper
  text that is not empty and is its own trimmed form. When the text that was read trims
  to the empty string, \<open>main\<close> ends with \<open>SystemExit\<close> and its message, so with an exit
  status that is not 0, and \<open>review\<close> answers 400, for an upload as for a URL; in each
  case the model has not been called.
\<close>

theorem front_ends_paper_text_nonempty:
  "(\<forall>msgs\<in>set (model_inputs (fst (main env a))).
      \<exists>p. p \<noteq> [] \<and> strip p = p
          \<and> msgs = build_messages (domain a) (tone a) p (language a))
   \<and> (\<forall>t raw. read_paper env (paper a) = (t, Inr raw) \<and> strip raw = [] \<longrightarrow>
         main env a = (t, Inl (SystemExit
               (ascii ''Paper text is empty; provide a text file or stdin input.'')))
         \<and> exit_status (snd (main env a)) \<noteq> 0
         \<and> model_inputs (fst (main env a)) = [])
   \<and> (\<forall>msgs\<in>set (model_inputs (fst (review env req))).
      \<exists>p. p \<noteq> [] \<and> strip p = p
          \<and> msgs = build_messages (domain req) (tone req) p (language req))
   \<and> (\<forall>f raw. upload_file req = Some f
         \<and> (if endswith (lower (or_empty (filename f))) (ascii ''.pdf'')
                \<or> str_contains (ascii ''pdf'') (lower (or_empty (content_type f)))
             then read_pdf_bytes env (data f) else decode_utf8 Ignore (data f)) = Inr raw
         \<and> strip raw = [] \<longrightarrow>
         http_status (snd (review env req)) = 400
         \<and> model_inputs (fst (review env req)) = [])
   \<and> (\<forall>t raw. upload_file req = None
         \<and> read_paper env (or_empty (paper_url req)) = (t, Inr raw) \<and> strip raw = [] \<longrightarrow>
         http_status (snd (review env req)) = 400
         \<and> model_inputs (fst (review env req)) = [])"
proof (intro conjI allI impI)
  show "\<forall>msgs\<in>set (model_inputs (fst (main env a))).
      \<exists>p. p \<noteq> [] \<and> strip p = p
          \<and> msgs = build_messages (domain a) (tone a) p (language a)"
    using main_model_inputs by blast
  show "\<forall>msgs\<in>set (model_inputs (fst (review env req))).
      \<exists>p. p \<noteq> [] \<and> strip p = p
          \<and> msgs = build_messages (domain req) (tone req) p (language req)"
    by (rule review_model_inputs)
next
  fix t raw
  assume h: "read_paper env (paper a) = (t, Inr raw) \<and> strip raw = []"
  then show m: "main env a = (t, Inl (SystemExit
               (ascii ''Paper text is empty; provide a text file or stdin input.'')))"
    by (simp add: main_empty)
  then show "exit_status (snd (main env a)) \<noteq> 0"
    by (simp add: exit_status_def)
  from h m show "model_inputs (fst (main env a)) = []"
    using read_paper_no_model [of env "paper a" t "Inr raw"] by simp
next
  fix f raw
  assume h: "upload_file req = Some f
         \<and> (if endswith (lower (or_empty (filename f))) (ascii ''.pdf'')
                \<or> str_contains (ascii ''pdf'') (lower (or_empty (content_type f)))
             then read_pdf_bytes env (data f) else decode_utf8 Ignore (data f)) = Inr raw
         \<and> strip raw = []"
  then have r: "fst (review env req) = [] \<and> http_status (snd (review env req)) = 400"
    using review_empty_upload [of req f env raw] by blast
  then show "http_status (snd (review env req)) = 400" by simp
  from r show "model_inputs (fst (review env req)) = []" by simp
next
  fix t raw
  assume h: "upload_file req = None
         \<and> read_paper env (or_empty (paper_url req)) = (t, Inr raw) \<and> strip raw = []"
  then have r: "http_status (snd (review env req)) = 400
      \<and> model_inputs (fst (review env req)) = []"
    using review_empty_url [of req env t raw] by blast
  then show "http_status (snd (review env req)) = 400" by simp
  from r show "model_inputs (fst (review env req)) = []" by simp
qed

lemma review_rejects:
  "(api_key req = None \<or> api_key req = Some [] \<longrightarrow>
      fst (review env req) = [] \<and> http_status (snd (review env req)) = 400
      \<and> review env' req = review env req)
   \<and> (upload_file req = None \<and> (paper_url req = None \<or> paper_url req = Some []) \<longrightarrow>
      fst (review env req) = [] \<and> http_status (snd (review env req)) = 400
      \<and> review env' req = review env req)
   \<and> (\<forall>f. upload_file req = Some f \<and> data f = [] \<longrightarrow>
      fst (review env req) = [] \<and> http_status (snd (review env req)) = 400
      \<and> review env' req = review env req)"
  by (auto simp: review_def truthy_def http_status_def io_bind_def split: option.splits)

text \<open>
  C7, as the code has it. A form that FastAPI's validation rejects, because a value has
  not the type its parameter declares, is answered 422 and the handler does not run.
  For a form that passes validation, \<open>POST /review\<close> answers 400 when \<open>api_key\<close> is
  missing or empty, whatever the other fields are; when there is neither an upload nor
  a \<open>paper_url\<close>; and when the upload has no bytes. In each case nothing has been done
  before: the run has no effect on the outside (no URL is fetched, no file is opened,
  the model is not called), and the answer is the same in every world, so it depends
  on no PDF, text or model.
\<close>

theorem post_review_rejects_bad_request:
  "(validate raw = None \<longrightarrow>
      post_review validate env raw = ([], Inl RequestValidationError)
      \<and> http_status (snd (post_review validate env raw)) = 422)
   \<and> (\<forall>req. validate raw = Some req \<longrightarrow>
        (api_key req = None \<or> api_key req = Some [] \<longrightarrow>
           fst (post_review validate env raw) = []
           \<and> http_status (snd (post_review validate env raw)) = 400
           \<and> post_review validate env' raw = post_review validate env raw)
        \<and> (upload_file req = None \<and> (paper_url req = None \<or> paper_url req = Some []) \<longrightarrow>
           fst (post_review validate env raw) = []
           \<and> http_status (snd (post_review validate env raw)) = 400
           \<and> post_review validate env' raw = post_review validate env raw)
        \<and> (\<forall>f. upload_file req = Some f \<and> data f = [] \<longrightarrow>
           fst (post_review validate env raw) = []
           \<and> http_status (snd (post_review validate env raw)) = 400
           \<and> post_review validate env' raw = post_review validate env raw))"
proof (intro conjI allI impI)
  assume "validate raw = None"
  then show "post_review validate env raw = ([], Inl RequestValidationError)"
    by (simp add: post_review_def)
  then show "http_status (snd (post_review validate env raw)) = 422"
    by (simp add: http_status_def)
next
  fix req assume v: "validate raw = Some req"
  then have p: "post_review validate env raw = review env req"
    "post_review validate env' raw = review env' req"
    by (simp_all add: post_review_def)
  note r = review_rejects [of req env env']
  { assume "api_key req = None \<or> api_key req = Some []"
    with r show "fst (post_review validate env raw) = []"
      "http_status (snd (post_review validate env raw)) = 400"
      "post_review validate env' raw = post_review validate env raw"
      unfolding p by blast+ }
  { assume "upload_file req = None \<and> (paper_url req = None \<or> paper_url req = Some [])"
    with r show "fst (post_review validate env raw) = []"
      "http_status (snd (post_review validate env raw)) = 400"
      "post_review validate env' raw = post_review validate env raw"
      unfolding p by blast+ }
  { fix f assume "upload_file req = Some f \<and> data f = []"
    with r show "fst (post_review validate env raw) = []"
      "http_status (snd (post_review validate env raw)) = 400"
      "post_review validate env' raw = post_review validate env raw"
      unfolding p by blast+ }
qed

section \<open>Examples for the front ends\<close>

lemmas strip_eval = strip_def lstrip_def rstrip_def isspace_cp_def

lemma strip_blank: "strip [32, 10] = []"
  by (simp add: strip_eval)

lemma strip_body: "strip (ascii ''Paper body text'') = ascii ''Paper body text''"
  by (simp add: strip_eval str_eval)

lemma strip_intro: "strip (ascii ''Intro'' @ 10 # ascii ''Results'') = ascii ''Intro'' @ 10 # ascii ''Results''"
  by (simp add: strip_eval str_eval)

lemma env0_chat: "chat_completions_create env0 cl m tmp msgs
   = Inr \<lparr>choices = [\<lparr>message_content = Some (ascii ''Summary: fine'')\<rparr>]\<rparr>"
  by (simp add: env0_def)

lemma main_blank:
  "main env0 (args0\<lparr>paper := ascii ''blank.txt''\<rparr>)
     = ([OpenFile (ascii ''blank.txt'')],
        Inl (SystemExit (ascii ''Paper text is empty; provide a text file or stdin input.'')))"
  by (simp add: main_def io_bind_def args0_def strip_blank world_eval str_eval reader_eval)

lemma main_sample:
  "fst (main env0 args0)
     = [OpenFile (ascii ''sample.txt''),
        ChatCreate \<lparr>client_api_key = ascii ''sk-test'', client_base_url = None\<rparr>
          (ascii ''test-model'') 0.2
          (build_messages (ascii ''CV'') (ascii ''mean reviewer who is strict but fair'')
             (ascii ''Paper body text'') (ascii ''en'')),
        Print (ascii ''Summary: fine'')]"
proof -
  have r: "read_paper env0 (ascii ''sample.txt'')
       = ([OpenFile (ascii ''sample.txt'')], Inr (ascii ''Paper body text''))"
    by (simp add: world_eval str_eval reader_eval)
  have n: "ascii ''Paper body text'' \<noteq> []" "ascii ''sk-test'' \<noteq> []"
    by (simp_all add: ascii_Cons)
  show ?thesis
    using n
    by (simp add: main_def io_bind_def args0_def r strip_body OpenAI_key call_model_def
        truthy_def env0_chat or_empty_def)
qed


lemma paper_reads_call_model: "paper_reads (fst (call_model env cl m msgs tmp)) = []"
  by (simp add: call_model_def)

lemma io_bind_Inl: "io_bind (t, Inl e) f = (t, Inl e)"
  by (simp add: io_bind_def)

lemma io_bind_Inr_nil: "io_bind ([], Inr x) f = f x"
  by (simp add: io_bind_def split: prod.splits)

lemma review_upload_eq:
  assumes "upload_file req = Some f" and "data f \<noteq> []" and "api_key req = Some k" and "k \<noteq> []"
  shows "review env req =
     (case (if endswith (lower (or_empty (filename f))) (ascii ''.pdf'')
               \<or> str_contains (ascii ''pdf'') (lower (or_empty (content_type f)))
            then read_pdf_bytes env (data f) else decode_utf8 Ignore (data f)) of
        Inl e \<Rightarrow> ([], Inl e)
      | Inr raw \<Rightarrow>
          if strip raw = []
          then ([], Inl (HTTPException 400
                    ([0x8BBA, 0x6587, 0x5185, 0x5BB9, 0x4E3A, 0x7A7A, 0xFF0C, 0x68C0, 0x67E5,
                      0x6587, 0x4EF6, 0x6216] @ ascii '' URL ''
                     @ [0x662F, 0x5426, 0x6709, 0x6548])))
          else io_bind
                 (call_model env \<lparr>client_api_key = k, client_base_url = base_url req\<rparr>
                    (model req)
                    (build_messages (domain req) (tone req) (strip raw) (language req))
                    (temperature req))
                 (\<lambda>text. ([], Inr \<lparr>review_text = text,
                                     meta = \<lparr>meta_domain = domain req,
                                              meta_language = language req,
                                              meta_model = model req,
                                              meta_base_url = base_url req,
                                              paper_source =
                                                (if or_empty (filename f) \<noteq> []
                                                 then or_empty (filename f)
                                                 else ascii ''uploaded-file''),
                                              text_chars = length (strip raw)\<rparr>\<rparr>)))"
proof (cases "if endswith (lower (or_empty (filename f))) (ascii ''.pdf'')
               \<or> str_contains (ascii ''pdf'') (lower (or_empty (content_type f)))
            then read_pdf_bytes env (data f) else decode_utf8 Ignore (data f)")
  case (Inl e)
  with assms show ?thesis
    by (simp add: review_def truthy_def Let_def io_bind_Inl)
next
  case (Inr raw)
  with assms show ?thesis
    by (simp add: review_def truthy_def Let_def io_bind_Inr_nil OpenAI_key)
qed


lemma truthy_cases: "\<not> truthy x \<or> (\<exists>k. x = Some k \<and> k \<noteq> [])"
  by (cases x) (auto simp: truthy_def)

lemma review_no_key: "\<not> truthy (api_key req) \<Longrightarrow>
   review env req = ([], Inl (HTTPException 400 ([0x7F3A, 0x5C11] @ ascii '' api_key'')))"
  by (simp add: review_def)

text \<open>
  C9. When a request carries an upload with at least one byte, \<open>paper_url\<close> plays no
  part: the outcome is the same for every value of \<open>paper_url\<close>, no URL is fetched and
  no file or standard input is read, and every message list sent to the model is built
  from the text of the upload, trimmed. A successful answer reports the file name of the
  upload as \<open>paper_source\<close>, or \<open>uploaded-file\<close> when the name is missing or empty.
\<close>

theorem review_upload_wins:
  assumes "upload_file req = Some f" and "data f \<noteq> []"
  shows "review env (req\<lparr>paper_url := u\<rparr>) = review env req
    \<and> paper_reads (fst (review env req)) = []
    \<and> (\<forall>t r. review env req = (t, Inr r) \<longrightarrow>
          paper_source (meta r) =
            (case filename f of
               None \<Rightarrow> ascii ''uploaded-file''
             | Some n \<Rightarrow> if n = [] then ascii ''uploaded-file'' else n))
    \<and> (\<forall>msgs\<in>set (model_inputs (fst (review env req))).
          \<exists>raw. (if endswith (lower (or_empty (filename f))) (ascii ''.pdf'')
                     \<or> str_contains (ascii ''pdf'') (lower (or_empty (content_type f)))
                  then read_pdf_bytes env (data f) else decode_utf8 Ignore (data f)) = Inr raw
             \<and> msgs = build_messages (domain req) (tone req) (strip raw) (language req))"
proof (cases "truthy (api_key req)")
  case False
  then have "\<not> truthy (api_key (req\<lparr>paper_url := u\<rparr>))" by simp
  then have "review env (req\<lparr>paper_url := u\<rparr>) = review env req"
    using False by (simp add: review_no_key)
  with False show ?thesis by (simp add: review_no_key)
next
  case True
  then obtain k where k: "api_key req = Some k" "k \<noteq> []"
    using truthy_cases [of "api_key req"] by blast
  note eq = review_upload_eq [OF assms k, of env]
  have "review env (req\<lparr>paper_url := u\<rparr>) = review env req"
  proof -
    have "upload_file (req\<lparr>paper_url := u\<rparr>) = Some f"
      and "api_key (req\<lparr>paper_url := u\<rparr>) = Some k"
      using assms k by simp_all
    from review_upload_eq [OF this(1) assms(2) this(2) k(2), of env] show ?thesis
      by (simp add: eq cong: sum.case_cong if_cong)
  qed
  moreover have "paper_reads (fst (review env req)) = []"
    by (simp add: eq call_model_def io_bind_def split: sum.splits)
  moreover have "\<forall>t r. review env req = (t, Inr r) \<longrightarrow>
          paper_source (meta r) =
            (case filename f of
               None \<Rightarrow> ascii ''uploaded-file''
             | Some n \<Rightarrow> if n = [] then ascii ''uploaded-file'' else n)"
    by (auto simp: eq call_model_def io_bind_def or_empty_def
             split: sum.splits option.splits if_splits list.splits)
  moreover have "\<forall>msgs\<in>set (model_inputs (fst (review env req))).
          \<exists>raw. (if endswith (lower (or_empty (filename f))) (ascii ''.pdf'')
                     \<or> str_contains (ascii ''pdf'') (lower (or_empty (content_type f)))
                  then read_pdf_bytes env (data f) else decode_utf8 Ignore (data f)) = Inr raw
             \<and> msgs = build_messages (domain req) (tone req) (strip raw) (language req)"
    by (simp add: eq call_model_def io_bind_def split: sum.splits)
  ultimately show ?thesis by blast
qed


lemma read_pdf_bytes_sample:
  "read_pdf_bytes env0 sample_pdf = Inr (ascii ''Intro'' @ [10] @ ascii ''Results'')"
  by (simp add: read_pdf_bytes_def read_pdf_bytes_inner_def env0_def or_empty_def)

lemma sample_pdf_nonempty: "sample_pdf \<noteq> []"
  by (simp add: sample_pdf_def ascii_bytes_Cons)

lemma or_empty_simps: "or_empty None = []" "or_empty (Some x) = x"
  by (simp_all add: or_empty_def)

lemma form0_fields:
  "domain form0 = ascii ''ML''" "tone form0 = ascii ''mean reviewer who is strict but fair''"
  "language form0 = ascii ''zh''" "model form0 = ascii ''gpt-4o-mini''"
  "base_url form0 = None" "api_key form0 = Some (ascii ''sk-test'')"
  "temperature form0 = 0.2" "paper_url form0 = Some (ascii ''http://h/page'')"
  "upload_file form0 = Some upload0"
  by (simp_all add: form0_def)

lemma upload0_fields:
  "or_empty (filename upload0) = ascii ''draft.pdf''"
  "endswith (lower (or_empty (filename upload0))) (ascii ''.pdf'')"
  "str_contains (ascii ''pdf'') (lower (or_empty (content_type upload0)))"
  "data upload0 = sample_pdf"
  by (simp_all add: upload0_def or_empty_def str_eval)

lemma example_texts:
  "ascii ''draft.pdf'' \<noteq> []" "ascii ''sk-test'' \<noteq> []"
  "ascii ''Intro'' @ 10 # ascii ''Results'' \<noteq> []"
  "length (ascii ''Intro'') + length (ascii ''Results'') = 12"
  by (simp_all add: ascii_Cons ascii_Nil)

lemma review_form0:
  "review env0 form0 =
     ([ChatCreate \<lparr>client_api_key = ascii ''sk-test'', client_base_url = None\<rparr>
         (ascii ''gpt-4o-mini'') 0.2
         (build_messages (ascii ''ML'') (ascii ''mean reviewer who is strict but fair'')
            (ascii ''Intro'' @ [10] @ ascii ''Results'') (ascii ''zh''))],
      Inr \<lparr>review_text = ascii ''Summary: fine'',
           meta = \<lparr>meta_domain = ascii ''ML'', meta_language = ascii ''zh'',
                    meta_model = ascii ''gpt-4o-mini'', meta_base_url = None,
                    paper_source = ascii ''draft.pdf'', text_chars = 13\<rparr>\<rparr>)"
proof -
  have "upload_file form0 = Some upload0" "data upload0 \<noteq> []"
    "api_key form0 = Some (ascii ''sk-test'')" "ascii ''sk-test'' \<noteq> []"
    by (simp_all add: form0_fields upload0_fields sample_pdf_nonempty example_texts)
  from review_upload_eq [OF this, of env0] show ?thesis
    by (simp add: form0_fields upload0_fields example_texts read_pdf_bytes_sample strip_intro
          call_model_def env0_chat io_bind_def or_empty_simps)
qed

lemma review_form0_unnamed:
  "review env0 (form0\<lparr>upload_file := Some (upload0\<lparr>filename := None\<rparr>)\<rparr>) =
     ([ChatCreate \<lparr>client_api_key = ascii ''sk-test'', client_base_url = None\<rparr>
         (ascii ''gpt-4o-mini'') 0.2
         (build_messages (ascii ''ML'') (ascii ''mean reviewer who is strict but fair'')
            (ascii ''Intro'' @ [10] @ ascii ''Results'') (ascii ''zh''))],
      Inr \<lparr>review_text = ascii ''Summary: fine'',
           meta = \<lparr>meta_domain = ascii ''ML'', meta_language = ascii ''zh'',
                    meta_model = ascii ''gpt-4o-mini'', meta_base_url = None,
                    paper_source = ascii ''uploaded-file'', text_chars = 13\<rparr>\<rparr>)"
proof -
  have "upload_file (form0\<lparr>upload_file := Some (upload0\<lparr>filename := None\<rparr>)\<rparr>)
          = Some (upload0\<lparr>filename := None\<rparr>)"
    "data (upload0\<lparr>filename := None\<rparr>) \<noteq> []"
    "api_key (form0\<lparr>upload_file := Some (upload0\<lparr>filename := None\<rparr>)\<rparr>)
          = Some (ascii ''sk-test'')" "ascii ''sk-test'' \<noteq> []"
    by (simp_all add: form0_fields upload0_fields sample_pdf_nonempty example_texts)
  from review_upload_eq [OF this, of env0] show ?thesis
    by (simp add: form0_fields upload0_fields example_texts read_pdf_bytes_sample strip_intro
          call_model_def env0_chat io_bind_def or_empty_simps)
qed

text \<open>
  In the example world the request uploads \<open>draft.pdf\<close> with the pages \<open>Intro\<close> and
  \<open>Results\<close> and also names a URL: the model gets \<open>Intro\nResults\<close>, the source is
  \<open>draft.pdf\<close>, and no URL is fetched. Without a file name the source is
  \<open>uploaded-file\<close>.
\<close>

theorem review_upload_wins_witness:
  "review env0 form0 =
     ([ChatCreate \<lparr>client_api_key = ascii ''sk-test'', client_base_url = None\<rparr>
         (ascii ''gpt-4o-mini'') 0.2
         (build_messages (ascii ''ML'') (ascii ''mean reviewer who is strict but fair'')
            (ascii ''Intro'' @ [10] @ ascii ''Results'') (ascii ''zh''))],
      Inr \<lparr>review_text = ascii ''Summary: fine'',
           meta = \<lparr>meta_domain = ascii ''ML'', meta_language = ascii ''zh'',
                    meta_model = ascii ''gpt-4o-mini'', meta_base_url = None,
                    paper_source = ascii ''draft.pdf'', text_chars = 13\<rparr>\<rparr>)
   \<and> paper_url form0 = Some (ascii ''http://h/page'')
   \<and> review env0 (form0\<lparr>paper_url := None\<rparr>) = review env0 form0
   \<and> review env0 (form0\<lparr>paper_url := Some (ascii ''http://h/gone'')\<rparr>) = review env0 form0
   \<and> paper_reads (fst (review env0 form0)) = []
   \<and> snd (review env0 (form0\<lparr>upload_file := Some (upload0\<lparr>filename := None\<rparr>)\<rparr>)) =
      Inr \<lparr>review_text = ascii ''Summary: fine'',
           meta = \<lparr>meta_domain = ascii ''ML'', meta_language = ascii ''zh'',
                    meta_model = ascii ''gpt-4o-mini'', meta_base_url = None,
                    paper_source = ascii ''uploaded-file'', text_chars = 13\<rparr>\<rparr>"
proof -
  have u: "upload_file form0 = Some upload0" "data upload0 \<noteq> []"
    by (simp_all add: form0_def upload0_def sample_pdf_nonempty)
  have "paper_url form0 = Some (ascii ''http://h/page'')"
    by (simp add: form0_def)
  moreover have "review env0 (form0\<lparr>paper_url := None\<rparr>) = review env0 form0"
    using review_upload_wins [OF u, of env0 None] by blast
  moreover have "review env0 (form0\<lparr>paper_url := Some (ascii ''http://h/gone'')\<rparr>)
                   = review env0 form0"
    using review_upload_wins [OF u, of env0 "Some (ascii ''http://h/gone'')"] by blast
  moreover have "paper_reads (fst (review env0 form0)) = []"
    using review_upload_wins [OF u, of env0 None] by blast
  ultimately show ?thesis
    using review_form0 review_form0_unnamed by simp
qed

lemmas form_eval = form_model_def text_value_def float_model_def

text \<open>
  In the example world: a form without \<open>api_key\<close>, a form without upload and URL, and
  a form whose upload has no bytes are answered 400 and nothing has been done; the full
  form is answered 200.
\<close>

theorem post_review_rejects_bad_request_witness:
  "fst (post_review form_model env0
          [(ascii ''paper_url'', Inl (ascii ''http://h/page'')),
           (ascii ''temperature'', Inl (ascii ''0.7''))]) = []
   \<and> http_status (snd (post_review form_model env0
          [(ascii ''paper_url'', Inl (ascii ''http://h/page'')),
           (ascii ''temperature'', Inl (ascii ''0.7''))])) = 400
   \<and> fst (post_review form_model env0 [(ascii ''api_key'', Inl (ascii ''sk-test''))]) = []
   \<and> http_status (snd (post_review form_model env0
          [(ascii ''api_key'', Inl (ascii ''sk-test''))])) = 400
   \<and> fst (post_review form_model env0
          [(ascii ''api_key'', Inl (ascii ''sk-test'')),
           (ascii ''file'', Inr (upload0\<lparr>data := []\<rparr>))]) = []
   \<and> http_status (snd (post_review form_model env0
          [(ascii ''api_key'', Inl (ascii ''sk-test'')),
           (ascii ''file'', Inr (upload0\<lparr>data := []\<rparr>))])) = 400
   \<and> form_model [(ascii ''api_key'', Inl (ascii ''sk-test'')),
                  (ascii ''paper_url'', Inl (ascii ''http://h/page'')),
                  (ascii ''file'', Inr upload0)] = Some form0
   \<and> http_status (snd (post_review form_model env0
          [(ascii ''api_key'', Inl (ascii ''sk-test'')),
           (ascii ''paper_url'', Inl (ascii ''http://h/page'')),
           (ascii ''file'', Inr upload0)])) = 200"
proof -
  let ?a = "[(ascii ''paper_url'', Inl (ascii ''http://h/page'')),
             (ascii ''temperature'', Inl (ascii ''0.7''))] :: raw_form"
  let ?b = "[(ascii ''api_key'', Inl (ascii ''sk-test''))] :: raw_form"
  let ?c = "[(ascii ''api_key'', Inl (ascii ''sk-test'')),
             (ascii ''file'', Inr (upload0\<lparr>data := []\<rparr>))] :: raw_form"
  let ?d = "[(ascii ''api_key'', Inl (ascii ''sk-test'')),
             (ascii ''paper_url'', Inl (ascii ''http://h/page'')),
             (ascii ''file'', Inr upload0)] :: raw_form"
  obtain ra where ra: "form_model ?a = Some ra" "api_key ra = None"
    by (simp add: form_eval str_eval)
  obtain rb where rb: "form_model ?b = Some rb" "upload_file rb = None" "paper_url rb = None"
    by (simp add: form_eval str_eval)
  obtain rc where rc: "form_model ?c = Some rc" "upload_file rc = Some (upload0\<lparr>data := []\<rparr>)"
    by (simp add: form_eval str_eval)
  have d: "form_model ?d = Some form0"
    by (simp add: form_eval form0_def str_eval)
  have "fst (post_review form_model env0 ?a) = []
      \<and> http_status (snd (post_review form_model env0 ?a)) = 400"
    using post_review_rejects_bad_request [of form_model ?a env0 env0] ra by simp
  moreover have "fst (post_review form_model env0 ?b) = []
      \<and> http_status (snd (post_review form_model env0 ?b)) = 400"
    using post_review_rejects_bad_request [of form_model ?b env0 env0] rb by simp
  moreover have "fst (post_review form_model env0 ?c) = []
      \<and> http_status (snd (post_review form_model env0 ?c)) = 400"
    using post_review_rejects_bad_request [of form_model ?c env0 env0] rc by simp
  moreover have "http_status (snd (post_review form_model env0 ?d)) = 200"
    by (simp add: post_review_def d review_form0 http_status_def)
  ultimately show ?thesis using d by blast
qed

text \<open>
  C7 as the specification states it fails on a form without \<open>api_key\<close> whose
  temperature is \<open>abc\<close>: the validation rejects it and the answer is 422, not 400.
\<close>

theorem post_review_validation_counterexample:
  "map_of raw_no_key_bad_temperature (ascii ''api_key'') = None
   \<and> map_of raw_no_key_bad_temperature (ascii ''temperature'') = Some (Inl (ascii ''abc''))
   \<and> form_model raw_no_key_bad_temperature = None
   \<and> post_review form_model env0 raw_no_key_bad_temperature = ([], Inl RequestValidationError)
   \<and> http_status (snd (post_review form_model env0 raw_no_key_bad_temperature)) = 422
   \<and> http_status (snd (post_review form_model env0 raw_no_key_bad_temperature)) \<noteq> 400"
  by (simp add: raw_no_key_bad_temperature_def form_model_def text_value_def float_model_def
        post_review_def http_status_def str_eval)


text \<open>
  In the example world: a file of blanks ends \<open>main\<close> with the exit status 1 before
  any model call and \<open>sample.txt\<close> reaches the model as it is; an upload of blanks and
  a URL with an empty body are answered with 400 before any model call, and the uploaded
  PDF reaches the model as its trimmed text.
\<close>

theorem front_ends_paper_text_nonempty_witness:
  "main env0 (args0\<lparr>paper := ascii ''blank.txt''\<rparr>)
     = ([OpenFile (ascii ''blank.txt'')],
        Inl (SystemExit (ascii ''Paper text is empty; provide a text file or stdin input.'')))
   \<and> exit_status (snd (main env0 (args0\<lparr>paper := ascii ''blank.txt''\<rparr>))) = 1
   \<and> model_inputs (fst (main env0 args0))
       = [build_messages (ascii ''CV'') (ascii ''mean reviewer who is strict but fair'')
            (ascii ''Paper body text'') (ascii ''en'')]
   \<and> strip (ascii ''Paper body text'') = ascii ''Paper body text''
   \<and> fst (review env0 (form0\<lparr>upload_file :=
              Some \<lparr>filename = Some (ascii ''blank.txt''),
                    content_type = Some (ascii ''text/plain''), data = [0x20, 0x0A]\<rparr>\<rparr>)) = []
   \<and> http_status (snd (review env0 (form0\<lparr>upload_file :=
              Some \<lparr>filename = Some (ascii ''blank.txt''),
                    content_type = Some (ascii ''text/plain''), data = [0x20, 0x0A]\<rparr>\<rparr>))) = 400
   \<and> fst (review env0 (form0\<lparr>upload_file := None, paper_url := Some (ascii ''http://h/cached'')\<rparr>))
       = [HttpGet (ascii ''http://h/cached'') 30]
   \<and> http_status (snd (review env0
         (form0\<lparr>upload_file := None, paper_url := Some (ascii ''http://h/cached'')\<rparr>))) = 400
   \<and> model_inputs (fst (review env0 form0))
       = [build_messages (ascii ''ML'') (ascii ''mean reviewer who is strict but fair'')
            (ascii ''Intro'' @ [10] @ ascii ''Results'') (ascii ''zh'')]"
proof -
  have r: "read_paper env0 (paper (args0\<lparr>paper := ascii ''blank.txt''\<rparr>))
             = ([OpenFile (ascii ''blank.txt'')], Inr [32, 10]) \<and> strip [32, 10] = []"
    by (simp add: strip_blank world_eval str_eval reader_eval)
  note m = front_ends_paper_text_nonempty
             [of env0 "args0\<lparr>paper := ascii ''blank.txt''\<rparr>" form0,
              THEN conjunct2, THEN conjunct1, rule_format, OF r]
  have 1: "main env0 (args0\<lparr>paper := ascii ''blank.txt''\<rparr>)
     = ([OpenFile (ascii ''blank.txt'')],
        Inl (SystemExit (ascii ''Paper text is empty; provide a text file or stdin input.'')))"
    using m by blast
  have 2: "exit_status (snd (main env0 (args0\<lparr>paper := ascii ''blank.txt''\<rparr>))) = 1"
    by (simp add: 1 exit_status_def)
  have 3: "model_inputs (fst (main env0 args0))
       = [build_messages (ascii ''CV'') (ascii ''mean reviewer who is strict but fair'')
            (ascii ''Paper body text'') (ascii ''en'')]"
    by (simp add: main_sample)
  have u: "read_paper env0 (ascii ''http://h/cached'')
             = ([HttpGet (ascii ''http://h/cached'') 30], Inr [])"
    by (simp add: world_eval str_eval reader_eval)
  have s0: "strip [] = []" by (simp add: strip_eval)
  have c: "ascii ''http://h/cached'' \<noteq> []" by (simp add: ascii_Cons)
  have 4: "review env0 (form0\<lparr>upload_file := None, paper_url := Some (ascii ''http://h/cached'')\<rparr>)
       = ([HttpGet (ascii ''http://h/cached'') 30],
          Inl (HTTPException 400
                    ([0x8BBA, 0x6587, 0x5185, 0x5BB9, 0x4E3A, 0x7A7A, 0xFF0C, 0x68C0, 0x67E5,
                      0x6587, 0x4EF6, 0x6216] @ ascii '' URL ''
                     @ [0x662F, 0x5426, 0x6709, 0x6548])))"
    using example_texts c
    by (simp add: review_def form0_fields truthy_def or_empty_simps u s0 io_bind_def)
  have d: "decode_utf8 Ignore [0x20, 0x0A] = Inr [32, 10]" by simp
  have 5: "review env0 (form0\<lparr>upload_file :=
              Some \<lparr>filename = Some (ascii ''blank.txt''),
                    content_type = Some (ascii ''text/plain''), data = [0x20, 0x0A]\<rparr>\<rparr>)
       = ([], Inl (HTTPException 400
                    ([0x8BBA, 0x6587, 0x5185, 0x5BB9, 0x4E3A, 0x7A7A, 0xFF0C, 0x68C0, 0x67E5,
                      0x6587, 0x4EF6, 0x6216] @ ascii '' URL ''
                     @ [0x662F, 0x5426, 0x6709, 0x6548])))"
    using example_texts
    by (simp add: review_def form0_fields truthy_def or_empty_simps d strip_blank io_bind_def
          str_eval)
  show ?thesis
    by (simp add: 1 3 4 5 strip_body review_form0 http_status_def exit_status_def)
qed

section \<open>Decoding UTF-8: strict and ignoring\<close>

lemma decode_ignore_total: "\<exists>s. decode_utf8 Ignore bs = Inr s"
proof (induction bs rule: length_induct)
  case (1 bs)
  show ?case
  proof (cases bs)
    case Nil
    then show ?thesis by simp
  next
    case (Cons b rest)
    obtain n c where st: "utf8_step b rest = (n, c)" by (cases "utf8_step b rest")
    have "length (drop n rest) < length bs" using Cons by simp
    with 1 obtain s where "decode_utf8 Ignore (drop n rest) = Inr s" by blast
    with Cons st show ?thesis by (cases c) simp_all
  qed
qed

lemma decode_strict_ignore: "decode_utf8 Strict bs = Inr s \<Longrightarrow> decode_utf8 Ignore bs = Inr s"
proof (induction bs arbitrary: s rule: length_induct)
  case (1 bs)
  show ?case
  proof (cases bs)
    case Nil
    with 1 show ?thesis by simp
  next
    case (Cons b rest)
    obtain n c where st: "utf8_step b rest = (n, c)" by (cases "utf8_step b rest")
    have len: "length (drop n rest) < length bs" using Cons by simp
    show ?thesis
    proof (cases c)
      case None
      with 1(2) Cons st show ?thesis by simp
    next
      case (Some cp)
      with 1(2) Cons st obtain s' where s': "decode_utf8 Strict (drop n rest) = Inr s'" "s = cp # s'"
        by (auto split: sum.splits)
      with 1(1) len have "decode_utf8 Ignore (drop n rest) = Inr s'" by blast
      with Cons st Some s' show ?thesis by simp
    qed
  qed
qed

lemma decode_strict_error: "decode_utf8 Strict bs = Inl e \<Longrightarrow> e = UnicodeDecodeError"
proof (induction bs rule: length_induct)
  case (1 bs)
  show ?case
  proof (cases bs)
    case Nil
    with 1 show ?thesis by simp
  next
    case (Cons b rest)
    obtain n c where st: "utf8_step b rest = (n, c)" by (cases "utf8_step b rest")
    have len: "length (drop n rest) < length bs" using Cons by simp
    show ?thesis
    proof (cases c)
      case None
      with 1(2) Cons st show ?thesis by simp
    next
      case (Some cp)
      with 1(2) Cons st have "decode_utf8 Strict (drop n rest) = Inl e"
        by (auto split: sum.splits)
      with 1(1) len show ?thesis by blast
    qed
  qed
qed


lemma lead_ascii: "(b \<le> 0x7F) = (b < (0x80 :: byte))"
  by (simp add: word_le_nat_alt word_less_nat_alt) arith

lemma lead_two:
  "in_range b 0xC2 0xDF = (\<not> b < 0x80 \<and> \<not> (b < 0xC2 \<or> 0xF4 < b) \<and> b < 0xE0)"
  by (simp add: in_range_def word_le_nat_alt word_less_nat_alt) arith

lemma lead_three:
  "in_range b 0xE0 0xEF
     = (\<not> b < 0x80 \<and> \<not> (b < 0xC2 \<or> 0xF4 < b) \<and> \<not> b < 0xE0 \<and> b < 0xF0)"
  by (simp add: in_range_def word_le_nat_alt word_less_nat_alt) arith

lemma lead_four:
  "in_range b 0xF0 0xF4
     = (\<not> b < 0x80 \<and> \<not> (b < 0xC2 \<or> 0xF4 < b) \<and> \<not> b < 0xE0 \<and> \<not> b < 0xF0)"
  by (simp add: in_range_def word_le_nat_alt word_less_nat_alt) arith


lemma second_ok_simps:
  "second_ok 0xE0 b1 = in_range b1 0xA0 0xBF"
  "second_ok 0xED b1 = in_range b1 0x80 0x9F"
  "second_ok 0xF0 b1 = in_range b1 0x90 0xBF"
  "second_ok 0xF4 b1 = in_range b1 0x80 0x8F"
  "b \<noteq> 0xE0 \<Longrightarrow> b \<noteq> 0xED \<Longrightarrow> b \<noteq> 0xF0 \<Longrightarrow> b \<noteq> 0xF4 \<Longrightarrow>
     second_ok b b1 = in_range b1 0x80 0xBF"
  by (simp_all add: second_ok_def in_range_def is_cont_def)

lemma is_cont_range: "is_cont b = in_range b 0x80 0xBF"
  by (simp add: is_cont_def in_range_def)


lemma step_wf:
  "well_formed_utf8 (b # bs)
     = (\<exists>n c. utf8_step b bs = (n, Some c) \<and> well_formed_utf8 (drop n bs))"
proof -
  consider (ascii) "b < 0x80"
    | (bad) "\<not> b < 0x80" "b < 0xC2 \<or> 0xF4 < b"
    | (two) "\<not> b < 0x80" "\<not> (b < 0xC2 \<or> 0xF4 < b)" "b < 0xE0"
    | (three) "\<not> b < 0x80" "\<not> (b < 0xC2 \<or> 0xF4 < b)" "\<not> b < 0xE0" "b < 0xF0"
    | (four) "\<not> b < 0x80" "\<not> (b < 0xC2 \<or> 0xF4 < b)" "\<not> b < 0xE0" "\<not> b < 0xF0"
    by blast
  then show ?thesis
  proof cases
    case ascii
    then show ?thesis by (simp add: lead_ascii)
  next
    case bad
    then show ?thesis by (simp add: lead_ascii lead_two lead_three lead_four)
  next
    case two
    then show ?thesis
      by (auto simp: lead_ascii lead_two is_cont_range split: list.splits)
  next
    case three
    then have ne: "b \<noteq> 0xF0" "b \<noteq> 0xF4" by auto
    consider (e0) "b = 0xE0" | (ed) "b = 0xED" | (other) "b \<noteq> 0xE0" "b \<noteq> 0xED" by blast
    then show ?thesis
    proof cases
      case e0
      then show ?thesis
        by (auto simp: in_range_def second_ok_simps is_cont_range split: list.splits)
    next
      case ed
      then show ?thesis
        by (auto simp: in_range_def second_ok_simps is_cont_range split: list.splits)
    next
      case other
      with three ne show ?thesis
        by (auto simp: lead_ascii lead_two lead_three second_ok_simps is_cont_range
                 split: list.splits)
    qed
  next
    case four
    then have ne: "b \<noteq> 0xE0" "b \<noteq> 0xED" by auto
    consider (f0) "b = 0xF0" | (f4) "b = 0xF4" | (other) "b \<noteq> 0xF0" "b \<noteq> 0xF4" by blast
    then show ?thesis
    proof cases
      case f0
      then show ?thesis
        by (auto simp: in_range_def second_ok_simps is_cont_range split: list.splits)
    next
      case f4
      then show ?thesis
        by (auto simp: in_range_def second_ok_simps is_cont_range split: list.splits)
    next
      case other
      with four ne show ?thesis
        by (auto simp: lead_ascii lead_two lead_three lead_four second_ok_simps is_cont_range
                 split: list.splits)
    qed
  qed
qed


lemma decode_strict_wf: "(\<exists>s. decode_utf8 Strict bs = Inr s) = well_formed_utf8 bs"
proof (induction bs rule: length_induct)
  case (1 bs)
  show ?case
  proof (cases bs)
    case Nil
    then show ?thesis by simp
  next
    case (Cons b rest)
    obtain n c where st: "utf8_step b rest = (n, c)" by (cases "utf8_step b rest")
    have "length (drop n rest) < length bs" using Cons by simp
    with 1 have ih: "(\<exists>s. decode_utf8 Strict (drop n rest) = Inr s)
                       = well_formed_utf8 (drop n rest)"
      by blast
    have w: "well_formed_utf8 (b # rest) = (c \<noteq> None \<and> well_formed_utf8 (drop n rest))"
      unfolding step_wf st by auto
    show ?thesis
    proof (cases c)
      case None
      with Cons st w show ?thesis
        by (simp del: utf8_step.simps well_formed_utf8.simps)
    next
      case (Some cp)
      with Cons st w ih [symmetric] show ?thesis
        by (auto simp del: utf8_step.simps well_formed_utf8.simps split: sum.splits)
    qed
  qed
qed

lemma decode_strict_fails:
  "(decode_utf8 Strict bs = Inl UnicodeDecodeError) = (\<not> well_formed_utf8 bs)"
proof -
  have "(\<exists>e. decode_utf8 Strict bs = Inl e) = (decode_utf8 Strict bs = Inl UnicodeDecodeError)"
    using decode_strict_error by blast
  moreover have "(\<exists>e. decode_utf8 Strict bs = Inl e) = (\<not> (\<exists>s. decode_utf8 Strict bs = Inr s))"
    by (cases "decode_utf8 Strict bs") auto
  ultimately show ?thesis using decode_strict_wf [of bs] by simp
qed


lemma step_take:
  "utf8_step b bs = (n, Some c) \<Longrightarrow>
     n \<le> length bs \<and> utf8_step b (take n bs @ ys) = (n, Some c)"
  by (auto split: if_splits list.splits)

lemma decode_ignore_drops:
  "\<exists>kept. subseq kept bs \<and> decode_utf8 Strict kept = decode_utf8 Ignore bs"
proof (induction bs rule: length_induct)
  case (1 bs)
  show ?case
  proof (cases bs)
    case Nil
    have "subseq [] bs \<and> decode_utf8 Strict [] = decode_utf8 Ignore bs"
      using Nil by simp
    then show ?thesis by blast
  next
    case (Cons b rest)
    obtain n c where st: "utf8_step b rest = (n, c)" by (cases "utf8_step b rest")
    have "length (drop n rest) < length bs" using Cons by simp
    with 1 obtain kept where k: "subseq kept (drop n rest)"
      "decode_utf8 Strict kept = decode_utf8 Ignore (drop n rest)"
      by blast
    have sub: "subseq kept rest"
      using k(1) by (metis append_take_drop_id subseq_order.order_trans list_emb_append2 subseq_order.order_refl)
    show ?thesis
    proof (cases c)
      case None
      have "subseq kept (b # rest)" using sub by (rule list_emb_Cons)
      moreover have "decode_utf8 Ignore bs = decode_utf8 Ignore (drop n rest)"
        using Cons st None by (simp del: utf8_step.simps)
      ultimately show ?thesis using k(2) Cons by auto
    next
      case (Some cp)
      from step_take [of b rest n cp kept] st Some
      have n: "n \<le> length rest" and st': "utf8_step b (take n rest @ kept) = (n, Some cp)"
        by simp_all
      have "subseq (take n rest @ kept) (take n rest @ drop n rest)"
        using k(1) by (intro list_emb_append_mono) simp_all
      then have "subseq (b # take n rest @ kept) (b # rest)" by simp
      moreover have "decode_utf8 Strict (b # take n rest @ kept)
                       = decode_utf8 Ignore (b # rest)"
        using st st' Some n k(2) by (simp del: utf8_step.simps)
      ultimately show ?thesis using Cons by blast
    qed
  qed
qed

section \<open>Uploads and text files\<close>

lemma read_text_file_fails:
  "open_file env p = Inr raw \<Longrightarrow>
     (snd (read_text_file env p) = Inl UnicodeDecodeError) = (\<not> well_formed_utf8 raw)"
  using decode_strict_fails [of raw]
  by (auto simp: read_text_file_def split: sum.splits)

lemma review_text_upload:
  assumes "upload_file req = Some f" and "data f \<noteq> []"
    and "api_key req = Some k" and "k \<noteq> []"
    and "\<not> endswith (lower (or_empty (filename f))) (ascii ''.pdf'')"
    and "\<not> str_contains (ascii ''pdf'') (lower (or_empty (content_type f)))"
    and "decode_utf8 Ignore (data f) = Inr s"
  shows "if strip s = []
         then fst (review env req) = [] \<and> http_status (snd (review env req)) = 400
         else model_inputs (fst (review env req))
                = [build_messages (domain req) (tone req) (strip s) (language req)]"
  using assms(5-7)
  by (simp add: review_upload_eq [OF assms(1-4)] http_status_def io_bind_fst_Inr_nil
        call_model_inputs)

text \<open>
  C10. Decoding with the handler \<open>ignore\<close> returns a string for every byte sequence:
  it never raises. What it returns is the strict decoding of a well-formed sequence left
  after deleting bytes of the input, and the strict decoding of the input itself when
  the input is well-formed UTF-8. For an upload that is not taken for a PDF, \<open>review\<close>
  goes on with this string: it answers 400 when the string trims to nothing and
  otherwise sends its trimmed form to the model. The local text file is decoded
  strictly: \<open>read_text_file\<close> fails with \<open>UnicodeDecodeError\<close> exactly when the
  bytes of the file are not well-formed UTF-8.
\<close>

theorem upload_decode_never_raises:
  "(\<exists>s. decode_utf8 Ignore raw = Inr s)
   \<and> (\<exists>kept. subseq kept raw \<and> well_formed_utf8 kept
          \<and> decode_utf8 Ignore raw = decode_utf8 Strict kept)
   \<and> (well_formed_utf8 raw \<longrightarrow> decode_utf8 Ignore raw = decode_utf8 Strict raw)
   \<and> (\<forall>f k. upload_file req = Some f \<and> data f \<noteq> [] \<and> api_key req = Some k \<and> k \<noteq> []
          \<and> \<not> endswith (lower (or_empty (filename f))) (ascii ''.pdf'')
          \<and> \<not> str_contains (ascii ''pdf'') (lower (or_empty (content_type f))) \<longrightarrow>
          (\<exists>s. decode_utf8 Ignore (data f) = Inr s
             \<and> (if strip s = []
                 then fst (review env req) = [] \<and> http_status (snd (review env req)) = 400
                 else model_inputs (fst (review env req))
                        = [build_messages (domain req) (tone req) (strip s) (language req)])))
   \<and> (\<forall>p. open_file env p = Inr raw \<longrightarrow>
          (snd (read_text_file env p) = Inl UnicodeDecodeError) = (\<not> well_formed_utf8 raw))"
proof (intro conjI allI impI)
  show "\<exists>s. decode_utf8 Ignore raw = Inr s" by (rule decode_ignore_total)
  obtain s where s: "decode_utf8 Ignore raw = Inr s" using decode_ignore_total by blast
  obtain kept where k: "subseq kept raw" "decode_utf8 Strict kept = decode_utf8 Ignore raw"
    using decode_ignore_drops by blast
  with s have "well_formed_utf8 kept" using decode_strict_wf [of kept] by auto
  with k show "\<exists>kept. subseq kept raw \<and> well_formed_utf8 kept
          \<and> decode_utf8 Ignore raw = decode_utf8 Strict kept"
    by auto
next
  assume "well_formed_utf8 raw"
  then obtain s where "decode_utf8 Strict raw = Inr s" using decode_strict_wf [of raw] by blast
  then show "decode_utf8 Ignore raw = decode_utf8 Strict raw"
    using decode_strict_ignore by simp
next
  fix f k
  assume h: "upload_file req = Some f \<and> data f \<noteq> [] \<and> api_key req = Some k \<and> k \<noteq> []
          \<and> \<not> endswith (lower (or_empty (filename f))) (ascii ''.pdf'')
          \<and> \<not> str_contains (ascii ''pdf'') (lower (or_empty (content_type f)))"
  obtain s where s: "decode_utf8 Ignore (data f) = Inr s" using decode_ignore_total by blast
  from h s review_text_upload [of req f k s env]
  show "\<exists>s. decode_utf8 Ignore (data f) = Inr s
             \<and> (if strip s = []
                 then fst (review env req) = [] \<and> http_status (snd (review env req)) = 400
                 else model_inputs (fst (review env req))
                        = [build_messages (domain req) (tone req) (strip s) (language req)])"
    by blast
next
  fix p
  assume "open_file env p = Inr raw"
  then show "(snd (read_text_file env p) = Inl UnicodeDecodeError) = (\<not> well_formed_utf8 raw)"
    by (rule read_text_file_fails)
qed


text \<open>
  In the example world: the Latin-1 bytes of \<open>caf\<close> followed by E9 are not UTF-8.
  Uploaded, they reach the model as \<open>caf\<close>; as the local file \<open>latin1.txt\<close> they
  fail. The three bytes E4 B8 AD decode to the code point 4E2D either way.
\<close>

theorem upload_decode_never_raises_witness:
  "decode_utf8 Ignore [0x63, 0x61, 0x66, 0xE9] = Inr (ascii ''caf'')
   \<and> decode_utf8 Strict [0x63, 0x61, 0x66, 0xE9] = Inl UnicodeDecodeError
   \<and> \<not> well_formed_utf8 [0x63, 0x61, 0x66, 0xE9]
   \<and> well_formed_utf8 [0xE4, 0xB8, 0xAD]
   \<and> decode_utf8 Ignore [0xE4, 0xB8, 0xAD] = Inr [0x4E2D]
   \<and> decode_utf8 Strict [0xE4, 0xB8, 0xAD] = Inr [0x4E2D]
   \<and> read_text_file env0 (ascii ''latin1.txt'')
       = ([OpenFile (ascii ''latin1.txt'')], Inl UnicodeDecodeError)
   \<and> model_inputs (fst (review env0 (form0\<lparr>upload_file :=
         Some \<lparr>filename = Some (ascii ''latin1.txt''),
               content_type = Some (ascii ''text/plain''),
               data = [0x63, 0x61, 0x66, 0xE9]\<rparr>\<rparr>)))
       = [build_messages (ascii ''ML'') (ascii ''mean reviewer who is strict but fair'')
            (ascii ''caf'') (ascii ''zh'')]"
proof -
  let ?raw = "[0x63, 0x61, 0x66, 0xE9] :: bytes"
  let ?up = "\<lparr>filename = Some (ascii ''latin1.txt''),
               content_type = Some (ascii ''text/plain''), data = ?raw\<rparr>"
  let ?req = "form0\<lparr>upload_file := Some ?up\<rparr>"
  note T = upload_decode_never_raises [of ?raw ?req env0]
  have d: "decode_utf8 Ignore ?raw = Inr (ascii ''caf'')"
    by (simp add: ascii_Cons ascii_Nil)
  have ds: "decode_utf8 Strict ?raw = Inl UnicodeDecodeError" by simp
  have nwf: "\<not> well_formed_utf8 ?raw" by (simp add: in_range_def)
  have z: "well_formed_utf8 [0xE4, 0xB8, 0xAD]" by (simp add: in_range_def)
  have zi: "decode_utf8 Ignore [0xE4, 0xB8, 0xAD] = Inr [0x4E2D]"
    by (simp add: second_ok_def is_cont_def cont_bits_def)
  have zs: "decode_utf8 Strict [0xE4, 0xB8, 0xAD] = Inr [0x4E2D]"
    by (simp add: second_ok_def is_cont_def cont_bits_def)
  have o: "open_file env0 (ascii ''latin1.txt'') = Inr ?raw"
    by (simp add: env0_def str_eval)
  from T o nwf have "snd (read_text_file env0 (ascii ''latin1.txt'')) = Inl UnicodeDecodeError"
    by blast
  moreover have "fst (read_text_file env0 (ascii ''latin1.txt'')) = [OpenFile (ascii ''latin1.txt'')]"
    by (simp add: read_text_file_def)
  ultimately have r: "read_text_file env0 (ascii ''latin1.txt'')
       = ([OpenFile (ascii ''latin1.txt'')], Inl UnicodeDecodeError)"
    by (metis prod.collapse)
  have hyp: "upload_file ?req = Some ?up \<and> data ?up \<noteq> []
      \<and> api_key ?req = Some (ascii ''sk-test'') \<and> ascii ''sk-test'' \<noteq> []
      \<and> \<not> endswith (lower (or_empty (filename ?up))) (ascii ''.pdf'')
      \<and> \<not> str_contains (ascii ''pdf'') (lower (or_empty (content_type ?up)))"
    by (simp add: form0_fields or_empty_simps str_eval)
  from T [THEN conjunct2, THEN conjunct2, THEN conjunct2, THEN conjunct1, rule_format, OF hyp]
  obtain s where s: "decode_utf8 Ignore (data ?up) = Inr s"
    "if strip s = []
     then fst (review env0 ?req) = [] \<and> http_status (snd (review env0 ?req)) = 400
     else model_inputs (fst (review env0 ?req))
            = [build_messages (domain ?req) (tone ?req) (strip s) (language ?req)]"
    by blast
  from s(1) d have "s = ascii ''caf''" by simp
  moreover have "strip (ascii ''caf'') = ascii ''caf''" "ascii ''caf'' \<noteq> []"
    by (simp_all add: strip_eval str_eval)
  ultimately have m: "model_inputs (fst (review env0 ?req))
       = [build_messages (ascii ''ML'') (ascii ''mean reviewer who is strict but fair'')
            (ascii ''caf'') (ascii ''zh'')]"
    using s(2) by (simp add: form0_fields)
  show ?thesis
    using d ds nwf z zi zs r m by blast
qed

end
